theory Spec2Isabelle
  imports Complex_Main
begin

section \<open>Conventions of the embedding\<close>

text \<open>
  The pricer is Python. Its \<^verbatim>\<open>float\<close> values are modelled as \<^typ>\<open>real\<close>: rounding,
  silent overflow to infinity and NaN are outside the model, so every equation below is an
  equation of real arithmetic. Every \<^verbatim>\<open>raise\<close> of the source, and every exception the
  interpreter raises inside an arithmetic operation (division by zero, logarithm or square
  root outside the domain, a power \<^verbatim>\<open>x ** y\<close> beyond the float range, a date outside the
  calendar), is a value \<open>Inl e\<close> of the result type \<open>error + 'a\<close>. Messages built with
  an f-string keep their fixed part.
\<close>

datatype error =
    ValueError string
  | ZeroDivisionError
  | OverflowError
  | IndexError
  | ComplexResult

definition bindE :: "error + 'a \<Rightarrow> ('a \<Rightarrow> error + 'b) \<Rightarrow> error + 'b" where
  "bindE x f = (case x of Inl e \<Rightarrow> Inl e | Inr v \<Rightarrow> f v)"

fun mapE :: "('a \<Rightarrow> error + 'b) \<Rightarrow> 'a list \<Rightarrow> error + 'b list" where
  "mapE f [] = Inr []"
| "mapE f (x # xs) =
     (case f x of Inl e \<Rightarrow> Inl e
      | Inr y \<Rightarrow> (case mapE f xs of Inl e \<Rightarrow> Inl e | Inr ys \<Rightarrow> Inr (y # ys)))"

subsection \<open>Float operations that can raise\<close>

definition py_div :: "real \<Rightarrow> real \<Rightarrow> error + real" where
  "py_div x y = (if y = 0 then Inl ZeroDivisionError else Inr (x / y))"

definition py_log :: "real \<Rightarrow> error + real" where
  "py_log x = (if x \<le> 0 then Inl (ValueError ''math domain error'') else Inr (ln x))"

definition py_sqrt :: "real \<Rightarrow> error + real" where
  "py_sqrt x = (if x < 0 then Inl (ValueError ''math domain error'') else Inr (sqrt x))"

text \<open>
  \<^verbatim>\<open>x ** y\<close> on floats: a zero base with a negative exponent raises, a result beyond
  the largest finite float raises \<^verbatim>\<open>OverflowError\<close>, and a negative base with a
  fractional exponent leaves the floats (Python answers with a complex number), which the
  model reports as \<^const>\<open>ComplexResult\<close>. The largest finite float is
  \<open>(2 - 2\<^sup>-\<^sup>5\<^sup>2) \<sqdot> 2\<^sup>1\<^sup>0\<^sup>2\<^sup>3\<close>.
\<close>

definition float_max :: real where
  "float_max = (2 - 1 / 2 ^ 52) * 2 ^ 1023"

definition float_range :: "real \<Rightarrow> error + real" where
  "float_range v = (if \<bar>v\<bar> > float_max then Inl OverflowError else Inr v)"

definition py_pow :: "real \<Rightarrow> real \<Rightarrow> error + real" where
  "py_pow x y =
     (if y = 0 then Inr 1
      else if 0 < x then float_range (x powr y)
      else if x = 0 then (if y < 0 then Inl ZeroDivisionError else Inr 0)
      else if y = of_int \<lfloor>y\<rfloor> then float_range (x powi \<lfloor>y\<rfloor>)
      else Inl ComplexResult)"

text \<open>\<^verbatim>\<open>int(x)\<close> on a float truncates towards zero.\<close>

definition py_int :: "real \<Rightarrow> int" where
  "py_int x = (if 0 \<le> x then \<lfloor>x\<rfloor> else \<lceil>x\<rceil>)"

text \<open>
  \<^verbatim>\<open>bisect.bisect_right(a, x)\<close> on a sorted sequence: the index after the last entry
  that is \<open>\<le> x\<close>.
\<close>

definition bisect_right :: "real list \<Rightarrow> real \<Rightarrow> nat" where
  "bisect_right a x = length (takeWhile (\<lambda>v. v \<le> x) a)"

section \<open>Dates (\<^verbatim>\<open>datetime.date\<close>)\<close>

text \<open>
  A date is its proleptic Gregorian ordinal (\<^verbatim>\<open>date.toordinal()\<close>), so comparison and
  \<^verbatim>\<open>(d2 - d1).days\<close> are integer comparison and subtraction. The calendar runs from
  0001-01-01 (ordinal 1) to 9999-12-31 (ordinal 3652059); leaving it raises.
\<close>

type_synonym date = int

definition days_in_month :: "int \<Rightarrow> int \<Rightarrow> int" where
  "days_in_month year month =
     (if month = 2 then
        (if year mod 4 = 0 \<and> (year mod 100 \<noteq> 0 \<or> year mod 400 = 0) then 29 else 28)
      else if month \<in> {4, 6, 9, 11} then 30
      else 31)"

definition days_before_year :: "int \<Rightarrow> int" where
  "days_before_year y = (y - 1) * 365 + (y - 1) div 4 - (y - 1) div 100 + (y - 1) div 400"

definition days_before_month :: "int \<Rightarrow> int \<Rightarrow> int" where
  "days_before_month y m =
     sum_list (map (days_in_month y) (filter (\<lambda>k. k < m) [1, 2, 3, 4, 5, 6, 7, 8, 9, 10, 11, 12]))"

definition ymd_to_ord :: "int \<Rightarrow> int \<Rightarrow> int \<Rightarrow> date" where
  "ymd_to_ord y m d = days_before_year y + days_before_month y m + d"

definition mk_date :: "int \<Rightarrow> int \<Rightarrow> int \<Rightarrow> error + date" where
  "mk_date y m d =
     (if 1 \<le> y \<and> y \<le> 9999 \<and> 1 \<le> m \<and> m \<le> 12 \<and> 1 \<le> d \<and> d \<le> days_in_month y m
      then Inr (ymd_to_ord y m d)
      else Inl (ValueError ''date value out of range''))"

definition date_year :: "date \<Rightarrow> int" where
  "date_year n =
     (let n0 = n - 1;
          n400 = n0 div 146097; r400 = n0 mod 146097;
          n100 = r400 div 36524; r100 = r400 mod 36524;
          n4 = r100 div 1461; r4 = r100 mod 1461;
          n1 = r4 div 365;
          y = n400 * 400 + 1 + n100 * 100 + n4 * 4 + n1
      in if n1 = 4 \<or> n100 = 4 then y - 1 else y)"

definition date_month :: "date \<Rightarrow> int" where
  "date_month n =
     (let y = date_year n; doy = n - days_before_year y
      in int (length (filter (\<lambda>m. days_before_month y m < doy)
                        [1, 2, 3, 4, 5, 6, 7, 8, 9, 10, 11, 12])))"

definition date_day :: "date \<Rightarrow> int" where
  "date_day n =
     (let y = date_year n in n - days_before_year y - days_before_month y (date_month n))"

text \<open>\<^verbatim>\<open>d + timedelta(days=k)\<close>.\<close>

definition date_add_days :: "date \<Rightarrow> int \<Rightarrow> error + date" where
  "date_add_days d k = (if 1 \<le> d + k \<and> d + k \<le> 3652059 then Inr (d + k) else Inl OverflowError)"

section \<open>\<^verbatim>\<open>utils/date_helpers.py\<close>\<close>

datatype DayCountConvention = ACT_360 | ACT_365 | ACT_ACT | ACT_365_25 | THIRTY_360

text \<open>The loop over the full years between the first and the last year of an ACT/ACT period.\<close>

function act_act_full_years :: "int \<Rightarrow> int \<Rightarrow> real \<Rightarrow> error + (int \<times> real)" where
  "act_act_full_years current_year end_year total_days =
     (if current_year < end_year then
        (case mk_date current_year 1 1 of Inl e \<Rightarrow> Inl e
         | Inr year_start_date \<Rightarrow>
            (case mk_date (current_year + 1) 1 1 of Inl e \<Rightarrow> Inl e
             | Inr year_end_date \<Rightarrow>
                 act_act_full_years (current_year + 1) end_year (total_days + 1)))
      else Inr (current_year, total_days))"
  by pat_completeness auto
termination
  by (relation "measure (\<lambda>(c, e, t). nat (e - c))") auto

declare act_act_full_years.simps [simp del]

definition days_between :: "date \<Rightarrow> date \<Rightarrow> DayCountConvention \<Rightarrow> error + real" where
  "days_between start_date end_date convention =
     (if end_date < start_date then Inl (ValueError ''end_date must be >= start_date'')
      else case convention of
        ACT_360 \<Rightarrow> Inr (real_of_int (end_date - start_date) / 360)
      | ACT_365 \<Rightarrow> Inr (real_of_int (end_date - start_date) / 365)
      | ACT_365_25 \<Rightarrow> Inr (real_of_int (end_date - start_date) / 365.25)
      | ACT_ACT \<Rightarrow>
          bindE (mk_date (date_year start_date) 1 1) (\<lambda>year_start.
          bindE (mk_date (date_year start_date + 1) 1 1) (\<lambda>year_end.
          let days_in_year = year_end - year_start in
          if date_year start_date = date_year end_date then
            py_div (real_of_int (end_date - start_date)) (real_of_int days_in_year)
          else
            bindE (mk_date (date_year start_date + 1) 1 1) (\<lambda>year_end_date.
            let days_in_first_year = year_end_date - year_start in
            bindE (py_div (real_of_int (year_end_date - start_date))
                     (real_of_int days_in_first_year)) (\<lambda>first.
            bindE (act_act_full_years (date_year start_date + 1) (date_year end_date) (0 + first))
              (\<lambda>(current_year, total_days).
            if current_year = date_year end_date then
              bindE (mk_date current_year 1 1) (\<lambda>year_start_date.
              bindE (mk_date (current_year + 1) 1 1) (\<lambda>year_end_date.
              let days_in_last_year = year_end_date - year_start_date in
              bindE (py_div (real_of_int (end_date - year_start_date))
                       (real_of_int days_in_last_year)) (\<lambda>last_part.
              Inr (total_days + last_part))))
            else Inr total_days)))))
      | THIRTY_360 \<Rightarrow>
          (let d1 = date_day start_date; m1 = date_month start_date; y1 = date_year start_date;
               d2 = date_day end_date; m2 = date_month end_date; y2 = date_year end_date;
               d1 = (if d1 = 31 then 30 else d1);
               d2 = (if d2 = 31 \<and> d1 = 30 then 30 else d2);
               days = 360 * (y2 - y1) + 30 * (m2 - m1) + (d2 - d1)
           in Inr (real_of_int days / 360)))"

text \<open>
  \<^verbatim>\<open>year_fraction\<close> with a \<^verbatim>\<open>DayCountConvention\<close> argument (the only kind the curve,
  the surface and the model pass) delegates to \<^verbatim>\<open>days_between\<close>.
\<close>

definition year_fraction :: "date \<Rightarrow> date \<Rightarrow> DayCountConvention \<Rightarrow> error + real" where
  "year_fraction start_date end_date convention = days_between start_date end_date convention"

definition add_months :: "date \<Rightarrow> int \<Rightarrow> error + date" where
  "add_months d months =
     (let month0 = date_month d - 1 + months;
          year = date_year d + month0 div 12;
          month = month0 mod 12 + 1;
          day = min (date_day d) (days_in_month year month)
      in mk_date year month day)"

definition add_years :: "date \<Rightarrow> int \<Rightarrow> error + date" where
  "add_years d years =
     (case mk_date (date_year d + years) (date_month d) (date_day d) of
        Inr r \<Rightarrow> Inr r
      | Inl e \<Rightarrow> mk_date (date_year d + years) (date_month d) (date_day d - 1))"

section \<open>\<^verbatim>\<open>market_data/yield_curve.py\<close>\<close>

fun validate_strictly_increasing :: "('a::linorder) list \<Rightarrow> error + unit" where
  "validate_strictly_increasing [] = Inr ()"
| "validate_strictly_increasing [x] = Inr ()"
| "validate_strictly_increasing (x # y # ys) =
     (if \<not> (y > x) then Inl (ValueError ''Values must be strictly increasing.'')
      else validate_strictly_increasing (y # ys))"

definition linear_interpolate :: "real \<Rightarrow> real \<Rightarrow> real \<Rightarrow> real \<Rightarrow> real \<Rightarrow> real" where
  "linear_interpolate x0 y0 x1 y1 x =
     (if x1 = x0 then y0
      else let w = (x - x0) / (x1 - x0) in (1 - w) * y0 + w * y1)"

text \<open>
  The frozen dataclass. The interpolation and compounding selectors are the strings of the
  source, so the arms that reject an unknown selector are part of the model. The field
  \<open>pillar_times\<close> is the attribute \<^verbatim>\<open>_pillar_times\<close> that \<^verbatim>\<open>__post_init__\<close> stores.
\<close>

record YieldCurve =
  valuation_date :: date
  pillar_dates :: "date list"
  pillar_zero_rates :: "real list"
  day_count :: DayCountConvention
  interpolation :: string
  compounding :: string
  pillar_times :: "real list"

text \<open>Construction: the dataclass initialiser followed by \<^verbatim>\<open>__post_init__\<close>.\<close>

definition new_YieldCurve ::
  "date \<Rightarrow> date list \<Rightarrow> real list \<Rightarrow> DayCountConvention \<Rightarrow> string \<Rightarrow> string \<Rightarrow> error + YieldCurve" where
  "new_YieldCurve vd pd pz dc interp cmpd =
     (if length pd \<noteq> length pz then
        Inl (ValueError ''pillar_dates and pillar_zero_rates must have the same length.'')
      else if length pd = 0 then Inl (ValueError ''At least one pillar is required.'')
      else if list_ex (\<lambda>d. d < vd) pd then
        Inl (ValueError ''All pillar_dates must be on or after valuation_date.'')
      else
        let sorted_pairs = sort_key fst (zip pd pz);
            dates_sorted = map fst sorted_pairs in
        bindE (validate_strictly_increasing dates_sorted) (\<lambda>_.
        bindE (mapE (\<lambda>d. year_fraction vd d dc) dates_sorted) (\<lambda>tms.
        bindE (validate_strictly_increasing tms) (\<lambda>_.
        Inr \<lparr> valuation_date = vd,
              pillar_dates = dates_sorted,
              pillar_zero_rates = map snd sorted_pairs,
              day_count = dc,
              interpolation = interp,
              compounding = cmpd,
              pillar_times = tms \<rparr>))))"

definition time_from_valuation :: "YieldCurve \<Rightarrow> date \<Rightarrow> error + real" where
  "time_from_valuation c d = year_fraction (valuation_date c) d (day_count c)"

definition df_from_rate :: "YieldCurve \<Rightarrow> real \<Rightarrow> real \<Rightarrow> error + real" where
  "df_from_rate c r t =
     (if compounding c = ''cont'' then Inr (exp (- r * t))
      else if compounding c = ''annual'' then bindE (py_pow (1 + r) t) (\<lambda>p. py_div 1 p)
      else if compounding c = ''simple'' then py_div 1 (1 + r * t)
      else Inl (ValueError ''Unsupported compounding method''))"

definition rate_from_df :: "YieldCurve \<Rightarrow> real \<Rightarrow> real \<Rightarrow> error + real" where
  "rate_from_df c df t =
     (if t = 0 then
        (case pillar_zero_rates c of [] \<Rightarrow> Inl IndexError | z # _ \<Rightarrow> Inr z)
      else if compounding c = ''cont'' then
        bindE (py_log df) (\<lambda>l. py_div (- l) t)
      else if compounding c = ''annual'' then
        bindE (py_div (- 1) t) (\<lambda>e. bindE (py_pow df e) (\<lambda>p. Inr (p - 1)))
      else if compounding c = ''simple'' then
        bindE (py_div 1 df) (\<lambda>q. py_div (q - 1) t)
      else Inl (ValueError ''Unsupported compounding method''))"

definition zero_rate_at_time :: "YieldCurve \<Rightarrow> real \<Rightarrow> error + real" where
  "zero_rate_at_time c t =
     (let tms = pillar_times c; zeros = pillar_zero_rates c in
      if tms = [] then Inl IndexError
      else if t \<le> hd tms then (if zeros = [] then Inl IndexError else Inr (hd zeros))
      else if t \<ge> last tms then (if zeros = [] then Inl IndexError else Inr (last zeros))
      else
        let idx = bisect_right tms t in
        if \<not> (idx < length tms \<and> idx < length zeros) then Inl IndexError
        else
          let t0 = tms ! (idx - 1); t1 = tms ! idx;
              z0 = zeros ! (idx - 1); z1 = zeros ! idx in
          if interpolation c = ''linear_zero'' then Inr (linear_interpolate t0 z0 t1 z1 t)
          else if interpolation c = ''log_linear_df'' then
            bindE (df_from_rate c z0 t0) (\<lambda>df0.
            bindE (df_from_rate c z1 t1) (\<lambda>df1.
            bindE (py_log df0) (\<lambda>log_df0.
            bindE (py_log df1) (\<lambda>log_df1.
            let log_df_t = linear_interpolate t0 log_df0 t1 log_df1 t;
                df_t = exp log_df_t in
            rate_from_df c df_t t))))
          else Inl (ValueError ''Unsupported interpolation method''))"

definition discount_factor :: "YieldCurve \<Rightarrow> date \<Rightarrow> error + real" where
  "discount_factor c target_date =
     (if target_date < valuation_date c then
        Inl (ValueError ''target_date must be on or after valuation_date.'')
      else
        bindE (time_from_valuation c target_date) (\<lambda>t.
        if t = 0 then Inr 1
        else bindE (zero_rate_at_time c t) (\<lambda>r. df_from_rate c r t)))"

definition zero_rate :: "YieldCurve \<Rightarrow> date \<Rightarrow> error + real" where
  "zero_rate c target_date =
     (if target_date < valuation_date c then
        Inl (ValueError ''target_date must be on or after valuation_date.'')
      else
        bindE (time_from_valuation c target_date) (\<lambda>t.
        if t = 0 then
          (case pillar_zero_rates c of [] \<Rightarrow> Inl IndexError | z # _ \<Rightarrow> Inr z)
        else zero_rate_at_time c t))"

definition forward_rate :: "YieldCurve \<Rightarrow> date \<Rightarrow> date \<Rightarrow> error + real" where
  "forward_rate c start_date end_date =
     (if end_date \<le> start_date then Inl (ValueError ''end_date must be after start_date.'')
      else
        bindE (discount_factor c start_date) (\<lambda>df_start.
        bindE (discount_factor c end_date) (\<lambda>df_end.
        bindE (year_fraction start_date end_date (day_count c)) (\<lambda>tau.
        bindE (py_div df_start df_end) (\<lambda>q.
        py_div (q - 1) tau)))))"

subsection \<open>Builders\<close>

text \<open>
  The loop of \<^verbatim>\<open>build_yield_curve_from_discount_factors\<close> over
  \<^verbatim>\<open>zip(pillar_dates, discount_factors)\<close>; it stops at the first pair that raises.
\<close>

fun zeros_from_discount_factors ::
  "date \<Rightarrow> DayCountConvention \<Rightarrow> string \<Rightarrow> (date \<times> real) list \<Rightarrow> error + real list" where
  "zeros_from_discount_factors vd dc cmpd [] = Inr []"
| "zeros_from_discount_factors vd dc cmpd ((d, df) # rest) =
     bindE (year_fraction vd d dc) (\<lambda>t.
     if t \<le> 0 then Inl (ValueError ''All pillar dates must be after valuation_date.'')
     else if df \<le> 0 \<or> df \<ge> 1 + 1 / 10 ^ 12 then
       Inl (ValueError ''Discount factors must be in (0, 1].'')
     else
       bindE (if cmpd = ''cont'' then bindE (py_log df) (\<lambda>l. py_div (- l) t)
              else if cmpd = ''annual'' then
                bindE (py_div (- 1) t) (\<lambda>e. bindE (py_pow df e) (\<lambda>p. Inr (p - 1)))
              else if cmpd = ''simple'' then bindE (py_div 1 df) (\<lambda>q. py_div (q - 1) t)
              else Inl (ValueError ''Unsupported compounding method'')) (\<lambda>z.
       bindE (zeros_from_discount_factors vd dc cmpd rest) (\<lambda>zs. Inr (z # zs))))"

definition build_yield_curve_from_discount_factors ::
  "date \<Rightarrow> date list \<Rightarrow> real list \<Rightarrow> DayCountConvention \<Rightarrow> string \<Rightarrow> string \<Rightarrow> error + YieldCurve" where
  "build_yield_curve_from_discount_factors vd pd dfs dc interp cmpd =
     (if length pd \<noteq> length dfs then
        Inl (ValueError ''pillar_dates and discount_factors must have the same length.'')
      else
        bindE (zeros_from_discount_factors vd dc cmpd (zip pd dfs)) (\<lambda>zeros.
        new_YieldCurve vd pd zeros dc interp cmpd))"

section \<open>\<^verbatim>\<open>market_data/vol_surface.py\<close>\<close>

text \<open>
  Python indexing of a tuple: a negative index counts from the end, an index outside the
  tuple raises.
\<close>

definition py_nth :: "'a list \<Rightarrow> int \<Rightarrow> error + 'a" where
  "py_nth xs i =
     (if 0 \<le> i \<and> i < int (length xs) then Inr (xs ! nat i)
      else if i < 0 \<and> - int (length xs) \<le> i then Inr (xs ! nat (int (length xs) + i))
      else Inl IndexError)"

text \<open>
  The fields \<open>vs_valuation_date\<close>, \<open>vs_interpolation\<close> and \<open>vs_day_count\<close> are the
  attributes \<^verbatim>\<open>valuation_date\<close>, \<^verbatim>\<open>interpolation\<close> and \<^verbatim>\<open>day_count\<close> of the
  surface, renamed apart from those of the curve.
\<close>

record VolatilitySurface =
  vs_valuation_date :: date
  expiry_times :: "real list"
  tenor_times :: "real list"
  volatility_matrix :: "real list list"
  vs_interpolation :: string
  extrapolation :: string
  vs_day_count :: DayCountConvention

fun validate_row :: "nat \<Rightarrow> real list \<Rightarrow> error + unit" where
  "validate_row n_tenors row =
     (if length row \<noteq> n_tenors then Inl (ValueError ''volatility_matrix row has wrong length'')
      else if list_ex (\<lambda>vol. vol < 0) row then
        Inl (ValueError ''Volatility must be non-negative'')
      else Inr ())"

definition new_VolatilitySurface ::
  "date \<Rightarrow> real list \<Rightarrow> real list \<Rightarrow> real list list \<Rightarrow> string \<Rightarrow> string \<Rightarrow> DayCountConvention
     \<Rightarrow> error + VolatilitySurface" where
  "new_VolatilitySurface vd ets tts vm interp extrap dc =
     (if length ets = 0 then Inl (ValueError ''At least one expiry time is required.'')
      else if length tts = 0 then Inl (ValueError ''At least one tenor time is required.'')
      else
        bindE (validate_strictly_increasing ets) (\<lambda>_.
        bindE (validate_strictly_increasing tts) (\<lambda>_.
        if length vm \<noteq> length ets then
          Inl (ValueError ''volatility_matrix has the wrong number of rows'')
        else
          bindE (mapE (validate_row (length tts)) vm) (\<lambda>_.
          Inr \<lparr> vs_valuation_date = vd, expiry_times = ets, tenor_times = tts,
                volatility_matrix = vm, vs_interpolation = interp, extrapolation = extrap,
                vs_day_count = dc \<rparr>))))"

definition find_index :: "real list \<Rightarrow> real \<Rightarrow> error + int" where
  "find_index tms t =
     (if tms = [] then Inl IndexError
      else if t \<le> hd tms then Inr (- 1)
      else if t \<ge> last tms then Inr (int (length tms) - 1)
      else Inr (int (bisect_right tms t) - 1))"

definition get_bounds :: "VolatilitySurface \<Rightarrow> real list \<Rightarrow> int \<Rightarrow> error + (real \<times> real)" where
  "get_bounds s tms idx =
     (if idx < 0 then
        (if extrapolation s = ''flat'' then
           bindE (py_nth tms 0) (\<lambda>a. bindE (py_nth tms 0) (\<lambda>b. Inr (a, b)))
         else if length tms > 1 then
           bindE (py_nth tms 0) (\<lambda>a. bindE (py_nth tms 1) (\<lambda>b. Inr (a, b)))
         else bindE (py_nth tms 0) (\<lambda>a. bindE (py_nth tms 0) (\<lambda>b. Inr (a, b))))
      else if idx \<ge> int (length tms) - 1 then
        (if extrapolation s = ''flat'' then
           bindE (py_nth tms (- 1)) (\<lambda>a. bindE (py_nth tms (- 1)) (\<lambda>b. Inr (a, b)))
         else if length tms > 1 then
           bindE (py_nth tms (- 2)) (\<lambda>a. bindE (py_nth tms (- 1)) (\<lambda>b. Inr (a, b)))
         else bindE (py_nth tms (- 1)) (\<lambda>a. bindE (py_nth tms (- 1)) (\<lambda>b. Inr (a, b))))
      else bindE (py_nth tms idx) (\<lambda>a. bindE (py_nth tms (idx + 1)) (\<lambda>b. Inr (a, b))))"

definition interpolate_1d ::
  "VolatilitySurface \<Rightarrow> real \<Rightarrow> real \<Rightarrow> real \<Rightarrow> real \<Rightarrow> real \<Rightarrow> real" where
  "interpolate_1d s x0 y0 x1 y1 x =
     (if vs_interpolation s = ''flat'' then y0 else linear_interpolate x0 y0 x1 y1 x)"

definition volatility_at_times :: "VolatilitySurface \<Rightarrow> real \<Rightarrow> real \<Rightarrow> error + real" where
  "volatility_at_times s expiry_time tenor_time =
     (if expiry_time < 0 then Inl (ValueError ''expiry_time must be non-negative.'')
      else if tenor_time < 0 then Inl (ValueError ''tenor_time must be non-negative.'')
      else
        bindE (find_index (expiry_times s) expiry_time) (\<lambda>exp_idx.
        bindE (find_index (tenor_times s) tenor_time) (\<lambda>ten_idx.
        bindE (get_bounds s (expiry_times s) exp_idx) (\<lambda>(exp_low, exp_high).
        bindE (get_bounds s (tenor_times s) ten_idx) (\<lambda>(ten_low, ten_high).
        bindE
          (if exp_idx < 0 then
             bindE (py_nth (volatility_matrix s) 0) (\<lambda>lo.
             bindE (if length (expiry_times s) = 1 then py_nth (volatility_matrix s) 0
                    else py_nth (volatility_matrix s) 1) (\<lambda>hi. Inr (lo, hi)))
           else if exp_idx \<ge> int (length (expiry_times s)) - 1 then
             (if length (expiry_times s) > 1 \<and> extrapolation s = ''linear'' then
                bindE (py_nth (volatility_matrix s) (- 2)) (\<lambda>lo.
                bindE (py_nth (volatility_matrix s) (- 1)) (\<lambda>hi. Inr (lo, hi)))
              else
                bindE (py_nth (volatility_matrix s) (- 1)) (\<lambda>lo.
                bindE (py_nth (volatility_matrix s) (- 1)) (\<lambda>hi. Inr (lo, hi))))
           else
             bindE (py_nth (volatility_matrix s) exp_idx) (\<lambda>lo.
             bindE (py_nth (volatility_matrix s) (exp_idx + 1)) (\<lambda>hi. Inr (lo, hi))))
          (\<lambda>(vol_row_low, vol_row_high).
        bindE
          (if ten_idx < 0 then
             bindE (py_nth vol_row_low 0) (\<lambda>lo.
             bindE (py_nth vol_row_high 0) (\<lambda>hi. Inr (lo, hi)))
           else if ten_idx \<ge> int (length (tenor_times s)) - 1 then
             bindE (py_nth vol_row_low (- 1)) (\<lambda>lo.
             bindE (py_nth vol_row_high (- 1)) (\<lambda>hi. Inr (lo, hi)))
           else
             bindE (py_nth vol_row_low ten_idx) (\<lambda>a0.
             bindE (py_nth vol_row_low (ten_idx + 1)) (\<lambda>a1.
             bindE (py_nth vol_row_high ten_idx) (\<lambda>b0.
             bindE (py_nth vol_row_high (ten_idx + 1)) (\<lambda>b1.
             Inr (interpolate_1d s ten_low a0 ten_high a1 tenor_time,
                  interpolate_1d s ten_low b0 ten_high b1 tenor_time))))))
          (\<lambda>(vol_low, vol_high).
        Inr (interpolate_1d s exp_low vol_low exp_high vol_high expiry_time))))))))"

section \<open>\<^verbatim>\<open>models/hull_white.py\<close>\<close>

text \<open>
  The field \<open>hw_day_count\<close> is the attribute \<^verbatim>\<open>day_count\<close> of the model, renamed apart
  from the curve's. The scheme is the string of the source: every value other than
  \<^verbatim>\<open>"exact"\<close> selects the Euler scheme.
\<close>

record HullWhite1F =
  yield_curve :: YieldCurve
  mean_reversion :: real
  volatility :: real
  scheme :: string
  hw_day_count :: DayCountConvention

definition new_HullWhite1F ::
  "YieldCurve \<Rightarrow> real \<Rightarrow> real \<Rightarrow> string \<Rightarrow> DayCountConvention \<Rightarrow> error + HullWhite1F" where
  "new_HullWhite1F yc a sigma sch dc =
     (if a \<le> 0 then Inl (ValueError ''mean_reversion must be positive.'')
      else if sigma \<le> 0 then Inl (ValueError ''volatility must be positive.'')
      else Inr \<lparr> yield_curve = yc, mean_reversion = a, volatility = sigma, scheme = sch,
                 hw_day_count = dc \<rparr>)"

text \<open>
  \<^verbatim>\<open>timedelta(days=days)\<close> raises beyond 999999999 days, and adding it to the valuation
  date raises when the result leaves the calendar.
\<close>

definition time_to_date :: "HullWhite1F \<Rightarrow> real \<Rightarrow> error + date" where
  "time_to_date m t =
     (let val_date = valuation_date (yield_curve m);
          days = (if hw_day_count m = ACT_365 then py_int (t * 365)
                  else if hw_day_count m = ACT_360 then py_int (t * 360)
                  else py_int (t * 365))
      in if \<bar>days\<bar> > 999999999 then Inl OverflowError else date_add_days val_date days)"

definition initial_short_rate :: "HullWhite1F \<Rightarrow> real \<Rightarrow> error + real" where
  "initial_short_rate m t = bindE (time_to_date m t) (\<lambda>t_date. zero_rate (yield_curve m) t_date)"

definition theta :: "HullWhite1F \<Rightarrow> real \<Rightarrow> error + real" where
  "theta m t =
     bindE (time_to_date m t) (\<lambda>t_date.
     let eps = max (1 / 10 ^ 4) (t * (1 / 10 ^ 6)) in
     bindE (time_to_date m (t + eps)) (\<lambda>t1_date.
     bindE (if t1_date \<le> t_date then time_to_date m (t + max (1 / 100) (t * (1 / 100)))
            else Inr t1_date) (\<lambda>t1_date.
     bindE (forward_rate (yield_curve m) t_date t1_date) (\<lambda>f_t.
     bindE (time_to_date m (t + 2 * eps)) (\<lambda>t2_date.
     bindE (if t2_date \<le> t1_date then time_to_date m (t + max (2 / 100) (t * (2 / 100)))
            else Inr t2_date) (\<lambda>t2_date.
     bindE (forward_rate (yield_curve m) t1_date t2_date) (\<lambda>f_t_plus.
     bindE (py_div (f_t_plus - f_t) eps) (\<lambda>df_dt.
     let a = mean_reversion m; sigma = volatility m in
     bindE (py_div (sigma ^ 2) (2 * a)) (\<lambda>q.
     Inr (df_dt + a * f_t + q * (1 - exp (- 2 * a * t))))))))))))"

text \<open>
  The loop of \<^verbatim>\<open>_theta_integral\<close> over \<^verbatim>\<open>range(n_points + 1)\<close>, with the running
  value of \<^verbatim>\<open>integral\<close> as accumulator.
\<close>

fun theta_integral_loop ::
  "HullWhite1F \<Rightarrow> real \<Rightarrow> real \<Rightarrow> nat \<Rightarrow> nat list \<Rightarrow> real \<Rightarrow> error + real" where
  "theta_integral_loop m s dt n_points [] integral = Inr integral"
| "theta_integral_loop m s dt n_points (i # rest) integral =
     (let tau = s + real i * dt;
          weight = (if i = 0 \<or> i = n_points then 1 else 2) in
      bindE (theta m tau) (\<lambda>th.
      theta_integral_loop m s dt n_points rest (integral + weight * th)))"

definition theta_integral :: "HullWhite1F \<Rightarrow> real \<Rightarrow> real \<Rightarrow> error + real" where
  "theta_integral m s t =
     (let n_points = 10;
          dt = (t - s) / real n_points in
      bindE (theta_integral_loop m s dt n_points [0..<n_points + 1] 0) (\<lambda>integral.
      Inr (integral * dt / 2)))"

definition forward_rate_integral :: "HullWhite1F \<Rightarrow> real \<Rightarrow> real \<Rightarrow> error + real" where
  "forward_rate_integral m t T =
     bindE (time_to_date m t) (\<lambda>t_date.
     bindE (time_to_date m T) (\<lambda>T_date.
     bindE (forward_rate (yield_curve m) t_date T_date) (\<lambda>fwd.
     Inr (fwd * (T - t)))))"

definition bond_price :: "HullWhite1F \<Rightarrow> real \<Rightarrow> real \<Rightarrow> real \<Rightarrow> error + real" where
  "bond_price m t T r_t =
     (if T < t then Inl (ValueError ''Bond maturity T must be >= current time t.'')
      else if t < 0 \<or> T < 0 then Inl (ValueError ''Times must be non-negative.'')
      else
        let tau = T - t in
        if tau = 0 then Inr 1
        else
          let a = mean_reversion m; sigma = volatility m in
          bindE (time_to_date m t) (\<lambda>t_date.
          bindE (time_to_date m T) (\<lambda>T_date.
          bindE (discount_factor (yield_curve m) t_date) (\<lambda>P_market_t.
          bindE (discount_factor (yield_curve m) T_date) (\<lambda>P_market_T.
          bindE (py_div (1 - exp (- a * tau)) a) (\<lambda>B.
          bindE (py_div P_market_T P_market_t) (\<lambda>ratio.
          bindE (forward_rate_integral m t T) (\<lambda>fri.
          bindE (py_div (sigma ^ 2) (a ^ 2)) (\<lambda>q.
          let A = ratio * exp (B * fri - (1 / 2) * q * (B - tau) * (1 - exp (- 2 * a * t)))
          in Inr (A * exp (- B * r_t)))))))))))"

subsection \<open>Simulation\<close>

text \<open>
  The process-level random source of \<^verbatim>\<open>numpy.random\<close> is modelled as its state: the
  stream of the standard-normal draws still to come. Drawing \<open>k\<close> values returns the next
  \<open>k\<close> entries and advances the stream, so every function that may draw takes the state
  and returns it.
\<close>

type_synonym rng_state = "nat \<Rightarrow> real"

definition standard_normal :: "int \<Rightarrow> rng_state \<Rightarrow> (error + real list) \<times> rng_state" where
  "standard_normal k g =
     (if k < 0 then (Inl (ValueError ''negative dimensions are not allowed''), g)
      else (Inr (map g [0..<nat k]), (\<lambda>n. g (n + nat k))))"

text \<open>
  The loops of the two schemes over \<^verbatim>\<open>range(1, n)\<close>; the array \<^verbatim>\<open>rates\<close> is the
  accumulator, updated at index \<open>i\<close>.
\<close>

fun simulate_exact_loop ::
  "HullWhite1F \<Rightarrow> real list \<Rightarrow> real list \<Rightarrow> nat list \<Rightarrow> real list \<Rightarrow> error + real list" where
  "simulate_exact_loop m tms random_shocks [] rates = Inr rates"
| "simulate_exact_loop m tms random_shocks (i # rest) rates =
     (let a = mean_reversion m; sigma = volatility m;
          dt = tms ! i - tms ! (i - 1) in
      if dt \<le> 0 then Inl (ValueError ''Times must be strictly increasing.'')
      else
        let mean_rev_term = rates ! (i - 1) * exp (- a * dt) in
        bindE (theta_integral m (tms ! (i - 1)) (tms ! i)) (\<lambda>drift_term.
        bindE (py_div (sigma ^ 2) (2 * a)) (\<lambda>q.
        let variance = q * (1 - exp (- 2 * a * dt)) in
        bindE (py_sqrt variance) (\<lambda>root.
        let stoch_term = root * random_shocks ! (i - 1) in
        simulate_exact_loop m tms random_shocks rest
          (rates[i := mean_rev_term + drift_term + stoch_term])))))"

fun simulate_euler_loop ::
  "HullWhite1F \<Rightarrow> real list \<Rightarrow> real list \<Rightarrow> nat list \<Rightarrow> real list \<Rightarrow> error + real list" where
  "simulate_euler_loop m tms random_shocks [] rates = Inr rates"
| "simulate_euler_loop m tms random_shocks (i # rest) rates =
     (let a = mean_reversion m; sigma = volatility m;
          dt = tms ! i - tms ! (i - 1) in
      if dt \<le> 0 then Inl (ValueError ''Times must be strictly increasing.'')
      else
        bindE (theta m (tms ! (i - 1))) (\<lambda>theta_t.
        let drift = (theta_t - a * rates ! (i - 1)) * dt in
        bindE (py_sqrt dt) (\<lambda>root.
        let diffusion = sigma * root * random_shocks ! (i - 1) in
        simulate_euler_loop m tms random_shocks rest
          (rates[i := rates ! (i - 1) + drift + diffusion]))))"

text \<open>
  The head shared by \<^verbatim>\<open>_simulate_exact\<close> and \<^verbatim>\<open>_simulate_euler\<close>: draw the shocks
  when none are supplied, otherwise check their number.
\<close>

definition obtain_shocks ::
  "nat \<Rightarrow> real list option \<Rightarrow> rng_state \<Rightarrow> (error + real list) \<times> rng_state" where
  "obtain_shocks n random_shocks g =
     (case random_shocks of
        None \<Rightarrow> standard_normal (int n - 1) g
      | Some shocks \<Rightarrow>
          (if int (length shocks) \<noteq> int n - 1 then
             (Inl (ValueError ''random_shocks must have length n - 1.''), g)
           else (Inr shocks, g)))"

definition simulate_exact ::
  "HullWhite1F \<Rightarrow> real list \<Rightarrow> real \<Rightarrow> real list option \<Rightarrow> rng_state
     \<Rightarrow> (error + real list) \<times> rng_state" where
  "simulate_exact m tms r0 random_shocks g =
     (let n = length tms in
      case obtain_shocks n random_shocks g of
        (Inl e, g') \<Rightarrow> (Inl e, g')
      | (Inr shocks, g') \<Rightarrow>
          (if n = 0 then (Inl IndexError, g')
           else (simulate_exact_loop m tms shocks [1..<n] ((replicate n 0)[0 := r0]), g')))"

definition simulate_euler ::
  "HullWhite1F \<Rightarrow> real list \<Rightarrow> real \<Rightarrow> real list option \<Rightarrow> rng_state
     \<Rightarrow> (error + real list) \<times> rng_state" where
  "simulate_euler m tms r0 random_shocks g =
     (let n = length tms in
      case obtain_shocks n random_shocks g of
        (Inl e, g') \<Rightarrow> (Inl e, g')
      | (Inr shocks, g') \<Rightarrow>
          (if n = 0 then (Inl IndexError, g')
           else (simulate_euler_loop m tms shocks [1..<n] ((replicate n 0)[0 := r0]), g')))"

definition simulate_short_rate_path ::
  "HullWhite1F \<Rightarrow> real list \<Rightarrow> real list option \<Rightarrow> rng_state
     \<Rightarrow> (error + real list) \<times> rng_state" where
  "simulate_short_rate_path m tms random_shocks g =
     (if length tms = 0 then (Inr [], g)
      else
        let t0 = hd tms in
        if t0 < 0 then (Inl (ValueError ''All times must be non-negative.''), g)
        else
          case initial_short_rate m t0 of
            Inl e \<Rightarrow> (Inl e, g)
          | Inr r0 \<Rightarrow>
              (if scheme m = ''exact'' then simulate_exact m tms r0 random_shocks g
               else simulate_euler m tms r0 random_shocks g))"

section \<open>Par-swap bootstrap\<close>

subsection \<open>\<^verbatim>\<open>generate_schedule\<close>\<close>

text \<open>
  The bootstrap calls \<^verbatim>\<open>generate_schedule\<close> with \<^verbatim>\<open>BusinessDayRule.NONE\<close> and no
  calendar; under that rule \<^verbatim>\<open>adjust_business_day\<close> returns its argument at its first
  test, so the adjusted dates are the dates themselves. The frequency string is taken
  parsed: \<open>frequency_value\<close> is \<^verbatim>\<open>int(frequency[:-1])\<close> and \<open>frequency_unit\<close> is
  \<^verbatim>\<open>frequency[-1].upper()\<close>. The \<^verbatim>\<open>while\<close> loop does not end for a frequency of zero
  months, so it is a partial function: \<open>None\<close> is "does not return".
\<close>

definition advance_date :: "int \<Rightarrow> string \<Rightarrow> date \<Rightarrow> error + date" where
  "advance_date frequency_value frequency_unit current_date =
     (if frequency_unit = ''M'' then add_months current_date frequency_value
      else if frequency_unit = ''Y'' then add_years current_date frequency_value
      else Inl (ValueError ''Unsupported frequency unit''))"

partial_function (option) schedule_loop ::
  "int \<Rightarrow> string \<Rightarrow> date \<Rightarrow> date \<Rightarrow> date list \<Rightarrow> (error + date list) option" where
  "schedule_loop frequency_value frequency_unit end_date current_date schedule =
     (if current_date < end_date then
        (case advance_date frequency_value frequency_unit current_date of
           Inl e \<Rightarrow> Some (Inl e)
         | Inr next_date \<Rightarrow>
             schedule_loop frequency_value frequency_unit end_date next_date
               (if next_date \<le> end_date then schedule @ [next_date] else schedule))
      else Some (Inr schedule))"

definition generate_schedule ::
  "date \<Rightarrow> date \<Rightarrow> int \<Rightarrow> string \<Rightarrow> (error + date list) option" where
  "generate_schedule start_date end_date frequency_value frequency_unit =
     (if end_date < start_date then Some (Inl (ValueError ''end_date must be >= start_date''))
      else
        case schedule_loop frequency_value frequency_unit end_date start_date [start_date] of
          None \<Rightarrow> None
        | Some (Inl e) \<Rightarrow> Some (Inl e)
        | Some (Inr schedule) \<Rightarrow>
            Some (Inr (if last schedule \<noteq> end_date then
                         (if end_date \<noteq> last schedule then schedule @ [end_date] else schedule)
                       else schedule)))"

subsection \<open>\<^verbatim>\<open>build_yield_curve_from_swaps\<close>\<close>

text \<open>
  The inner loop over the payment periods of one swap; the accumulator is the pair
  \<^verbatim>\<open>(fixed_leg_pv_known, tau_maturity)\<close>.
\<close>

fun fixed_leg_loop ::
  "YieldCurve \<Rightarrow> date \<Rightarrow> date list \<Rightarrow> date \<Rightarrow> real \<Rightarrow> DayCountConvention \<Rightarrow> nat list
     \<Rightarrow> real \<times> real \<Rightarrow> error + real \<times> real" where
  "fixed_leg_loop temp_curve vd schedule swap_maturity swap_rate dc [] acc = Inr acc"
| "fixed_leg_loop temp_curve vd schedule swap_maturity swap_rate dc (i # rest)
       (fixed_leg_pv_known, tau_maturity) =
     (let start_date = (if i = 0 then vd else schedule ! (i - 1));
          end_date = schedule ! i in
      bindE (year_fraction start_date end_date dc) (\<lambda>tau.
      if end_date = swap_maturity then
        fixed_leg_loop temp_curve vd schedule swap_maturity swap_rate dc rest
          (fixed_leg_pv_known, tau)
      else
        bindE (discount_factor temp_curve end_date) (\<lambda>df_pay.
        fixed_leg_loop temp_curve vd schedule swap_maturity swap_rate dc rest
          (fixed_leg_pv_known + df_pay * swap_rate * tau, tau_maturity))))"

text \<open>
  The body of the outer loop for a swap after the first, from the fixed-leg loop to the
  check of the solved discount factor. The schedule is not empty here.
\<close>

definition solve_swap ::
  "YieldCurve \<Rightarrow> date \<Rightarrow> date list \<Rightarrow> date \<Rightarrow> real \<Rightarrow> DayCountConvention \<Rightarrow> error + real" where
  "solve_swap temp_curve vd schedule swap_maturity swap_rate dc =
     bindE (fixed_leg_loop temp_curve vd schedule swap_maturity swap_rate dc
              [0..<length schedule] (0, 0)) (\<lambda>(fixed_leg_pv_known, tau_maturity).
     bindE (if last schedule \<noteq> swap_maturity
            then year_fraction (last schedule) swap_maturity dc
            else Inr tau_maturity) (\<lambda>tau_maturity.
     bindE (if tau_maturity > 0
            then py_div (1 - fixed_leg_pv_known) (1 + swap_rate * tau_maturity)
            else Inr 1) (\<lambda>df_maturity.
     if df_maturity \<le> 0 \<or> df_maturity > 1 then
       Inl (ValueError ''Bootstrapping failed: invalid discount factor'')
     else Inr df_maturity)))"

text \<open>
  The outer loop over the swaps sorted by maturity; the accumulator is the pair
  \<^verbatim>\<open>(pillar_dates, discount_factors)\<close> of the source, here
  \<open>(pillar_dates_acc, discount_factors_acc)\<close>.
\<close>

fun swaps_loop ::
  "date \<Rightarrow> int \<Rightarrow> string \<Rightarrow> DayCountConvention \<Rightarrow> string \<Rightarrow> string \<Rightarrow> (date \<times> real) list
     \<Rightarrow> date list \<times> real list \<Rightarrow> (error + date list \<times> real list) option" where
  "swaps_loop vd fv fu dc interp cmpd [] acc = Some (Inr acc)"
| "swaps_loop vd fv fu dc interp cmpd ((swap_maturity, swap_rate) # rest)
       (pillar_dates_acc, discount_factors_acc) =
     (case generate_schedule vd swap_maturity fv fu of
        None \<Rightarrow> None
      | Some (Inl e) \<Rightarrow> Some (Inl e)
      | Some (Inr schedule0) \<Rightarrow>
          (let schedule = (if schedule0 \<noteq> [] \<and> hd schedule0 = vd then tl schedule0
                           else schedule0) in
           if schedule = [] then Some (Inl (ValueError ''Invalid swap schedule''))
           else if pillar_dates_acc \<noteq> [] then
             (case build_yield_curve_from_discount_factors vd pillar_dates_acc discount_factors_acc
                     dc interp cmpd of
                Inl e \<Rightarrow> Some (Inl e)
              | Inr temp_curve \<Rightarrow>
                  (case solve_swap temp_curve vd schedule swap_maturity swap_rate dc of
                     Inl e \<Rightarrow> Some (Inl e)
                   | Inr df_maturity \<Rightarrow>
                       swaps_loop vd fv fu dc interp cmpd rest
                         (pillar_dates_acc @ [swap_maturity], discount_factors_acc @ [df_maturity])))
           else
             (case year_fraction vd swap_maturity dc of
                Inl e \<Rightarrow> Some (Inl e)
              | Inr t \<Rightarrow>
                  if t \<le> 0 then
                    Some (Inl (ValueError ''All swap maturities must be after valuation_date.''))
                  else
                    (case py_div 1 (1 + swap_rate * t) of
                       Inl e \<Rightarrow> Some (Inl e)
                     | Inr df_maturity \<Rightarrow>
                         swaps_loop vd fv fu dc interp cmpd rest
                           (pillar_dates_acc @ [swap_maturity],
                            discount_factors_acc @ [df_maturity])))))"

definition build_yield_curve_from_swaps ::
  "date \<Rightarrow> date list \<Rightarrow> real list \<Rightarrow> int \<Rightarrow> string \<Rightarrow> DayCountConvention \<Rightarrow> string \<Rightarrow> string
     \<Rightarrow> (error + YieldCurve) option" where
  "build_yield_curve_from_swaps vd swap_maturities par_swap_rates fv fu dc interp cmpd =
     (if length swap_maturities \<noteq> length par_swap_rates then
        Some (Inl (ValueError ''swap_maturities and par_swap_rates must have the same length.''))
      else if length swap_maturities = 0 then
        Some (Inl (ValueError ''At least one swap is required.''))
      else
        let sorted_pairs = sort_key fst (zip swap_maturities par_swap_rates) in
        case swaps_loop vd fv fu dc interp cmpd sorted_pairs ([], []) of
          None \<Rightarrow> None
        | Some (Inl e) \<Rightarrow> Some (Inl e)
        | Some (Inr (pillar_dates_acc, discount_factors_acc)) \<Rightarrow>
            Some (build_yield_curve_from_discount_factors vd pillar_dates_acc discount_factors_acc
                    dc interp cmpd))"

section \<open>Reference formulas\<close>

text \<open>
  The composite trapezoidal rule with \<open>n\<close> sub-intervals of equal width on \<open>[s, t]\<close>:
  the sum of the areas of the \<open>n\<close> trapezoids under \<open>f\<close>.
\<close>

definition composite_trapezoid :: "nat \<Rightarrow> (real \<Rightarrow> real) \<Rightarrow> real \<Rightarrow> real \<Rightarrow> real" where
  "composite_trapezoid n f s t =
     (let h = (t - s) / real n
      in (\<Sum>k<n. h * (f (s + real k * h) + f (s + real (Suc k) * h)) / 2))"

text \<open>
  The exact inverses of the three compounding formulas: the zero rate that reproduces the
  discount factor \<open>df\<close> at the year fraction \<open>t\<close>.
\<close>

definition zero_of_df :: "string \<Rightarrow> real \<Rightarrow> real \<Rightarrow> real" where
  "zero_of_df cmpd df t =
     (if cmpd = ''cont'' then - ln df / t
      else if cmpd = ''annual'' then df powr (- 1 / t) - 1
      else (1 / df - 1) / t)"

section \<open>Example data\<close>

text \<open>
  A curve valued on 2024-01-01 (ordinal 738886) with pillars on 2025-01-01 and 2026-01-01
  (ordinals 739252 and 739617), zero rates 2\% and 3\%, ACT/365, simple compounding.
\<close>

definition example_curve :: YieldCurve where
  "example_curve =
     \<lparr> valuation_date = 738886,
       pillar_dates = [739252, 739617],
       pillar_zero_rates = [2 / 100, 3 / 100],
       day_count = ACT_365,
       interpolation = ''linear_zero'',
       compounding = ''simple'',
       pillar_times = [366 / 365, 731 / 365] \<rparr>"

text \<open>
  A model on the example curve: mean reversion 0.1, volatility 0.01, exact scheme, ACT/365.
\<close>

definition example_model :: HullWhite1F where
  "example_model =
     \<lparr> yield_curve = example_curve, mean_reversion = 1 / 10, volatility = 1 / 100,
       scheme = ''exact'', hw_day_count = ACT_365 \<rparr>"

text \<open>
  A two-by-two surface with flat interpolation and flat extrapolation: expiries 1 and 2
  years, tenors 1 and 2 years.
\<close>

definition example_surface :: VolatilitySurface where
  "example_surface =
     \<lparr> vs_valuation_date = 738886, expiry_times = [1, 2], tenor_times = [1, 2],
       volatility_matrix = [[20 / 100, 21 / 100], [22 / 100, 23 / 100]],
       vs_interpolation = ''flat'', extrapolation = ''flat'', vs_day_count = ACT_365 \<rparr>"

text \<open>A state of the random source: every draw still to come is 0.\<close>

definition example_rng :: rng_state where
  "example_rng = (\<lambda>n. 0)"

text \<open>
  A bootstrap under 30/360 valued on 2024-07-30 (ordinal 739097), with par swaps of 2\%
  maturing on 2024-10-30 (739189) and 2025-01-31 (739282), paying every 6 months. The
  second swap pays on 2025-01-30 (739281) and at maturity. \<open>example_temp_curve\<close> is the
  temporary curve after the first swap, \<open>example_swap_curve\<close> the curve returned.
\<close>

definition example_temp_curve :: YieldCurve where
  "example_temp_curve =
     \<lparr> valuation_date = 739097, pillar_dates = [739189], pillar_zero_rates = [2 / 100],
       day_count = THIRTY_360, interpolation = ''linear_zero'', compounding = ''simple'',
       pillar_times = [1 / 4] \<rparr>"

definition example_swap_curve :: YieldCurve where
  "example_swap_curve =
     \<lparr> valuation_date = 739097, pillar_dates = [739189, 739282],
       pillar_zero_rates = [2 / 100, 0],
       day_count = THIRTY_360, interpolation = ''linear_zero'', compounding = ''simple'',
       pillar_times = [1 / 4, 1 / 2] \<rparr>"

section \<open>Properties\<close>

subsection \<open>Auxiliary facts\<close>

lemma bindE_Inr_iff: "bindE x f = Inr r \<longleftrightarrow> (\<exists>v. x = Inr v \<and> f v = Inr r)"
  by (cases x) (auto simp: bindE_def)

lemma bindE_Inr [simp]: "bindE (Inr v) f = f v"
  by (simp add: bindE_def)

lemma bindE_Inl [simp]: "bindE (Inl e) f = Inl e"
  by (simp add: bindE_def)

lemma validate_strictly_increasing_iff:
  "validate_strictly_increasing xs = Inr u \<longleftrightarrow> sorted_wrt (<) xs"
proof (induction xs rule: validate_strictly_increasing.induct)
  case (3 x y ys)
  then show ?case
    by (cases "x < y") (auto simp: less_trans)
qed simp_all

lemma mapE_Inr_length: "mapE f xs = Inr ys \<Longrightarrow> length ys = length xs"
  by (induction xs arbitrary: ys) (auto split: sum.splits)


lemma new_YieldCurve_facts:
  assumes "new_YieldCurve vd pd pz dc interp cmpd = Inr c"
  shows "pillar_times c \<noteq> []"
    and "length (pillar_zero_rates c) = length (pillar_times c)"
    and "length (pillar_dates c) = length (pillar_times c)"
    and "sorted_wrt (<) (pillar_times c)"
    and "sorted_wrt (<) (pillar_dates c)"
    and "valuation_date c = vd" and "day_count c = dc"
    and "interpolation c = interp" and "compounding c = cmpd"
    and "pillar_dates c = map fst (sort_key fst (zip pd pz))"
    and "pillar_zero_rates c = map snd (sort_key fst (zip pd pz))"
    and "mapE (\<lambda>d. year_fraction vd d dc) (pillar_dates c) = Inr (pillar_times c)"
    and "\<forall>d \<in> set pd. vd \<le> d"
    and "length pd = length pz"
  using assms
  by (auto simp: new_YieldCurve_def Let_def bindE_Inr_iff validate_strictly_increasing_iff
        list_ex_iff not_less
      dest: mapE_Inr_length split: if_splits)

lemma sorted_wrt_hd_last_single:
  fixes xs :: "real list"
  assumes "sorted_wrt (<) xs" "xs \<noteq> []" "last xs \<le> hd xs"
  shows "length xs = 1"
proof (cases xs)
  case Nil
  with assms show ?thesis by simp
next
  case (Cons a ys)
  show ?thesis
  proof (cases "ys = []")
    case True
    with Cons show ?thesis by simp
  next
    case False
    then have "last ys \<in> set ys" by simp
    with assms(1) Cons have "a < last ys" by auto
    moreover have "last xs = last ys" using Cons False by simp
    ultimately show ?thesis using assms(3) Cons by simp
  qed
qed

lemma example_curve_built:
  "new_YieldCurve 738886 [739252, 739617] [2 / 100, 3 / 100] ACT_365 ''linear_zero'' ''simple''
     = Inr example_curve"
  by (simp add: new_YieldCurve_def example_curve_def year_fraction_def days_between_def)

subsection \<open>The discount curve\<close>

text \<open>
  C7. On every curve that construction accepts, whatever its interpolation mode, the
  interpolated zero rate at a time at or below the first pillar time is the first pillar's
  rate, and at a time at or above the last pillar time it is the last pillar's rate.
\<close>

theorem zero_rate_clamped_flat:
  assumes "new_YieldCurve vd pd pz dc interp cmpd = Inr c"
  shows "(t \<le> hd (pillar_times c) \<longrightarrow> zero_rate_at_time c t = Inr (hd (pillar_zero_rates c)))
       \<and> (t \<ge> last (pillar_times c) \<longrightarrow> zero_rate_at_time c t = Inr (last (pillar_zero_rates c)))"
proof -
  note f = new_YieldCurve_facts [OF assms]
  have ne: "pillar_zero_rates c \<noteq> []" using f(1,2) by auto
  have low: "zero_rate_at_time c t = Inr (hd (pillar_zero_rates c))"
    if "t \<le> hd (pillar_times c)"
    using that f(1) ne by (simp add: zero_rate_at_time_def Let_def)
  have high: "zero_rate_at_time c t = Inr (last (pillar_zero_rates c))"
    if h: "t \<ge> last (pillar_times c)"
  proof (cases "t \<le> hd (pillar_times c)")
    case True
    then have "last (pillar_times c) \<le> hd (pillar_times c)" using h by simp
    then have "length (pillar_times c) = 1"
      using sorted_wrt_hd_last_single f(4) f(1) by blast
    then have "length (pillar_zero_rates c) = 1" using f(2) by simp
    then have "hd (pillar_zero_rates c) = last (pillar_zero_rates c)"
      by (cases "pillar_zero_rates c") auto
    with low [OF True] show ?thesis by simp
  next
    case False
    then show ?thesis using h f(1) ne by (simp add: zero_rate_at_time_def Let_def)
  qed
  from low high show ?thesis by blast
qed

theorem zero_rate_clamped_flat_witness:
  "new_YieldCurve 738886 [739252, 739617] [2 / 100, 3 / 100] ACT_365 ''linear_zero'' ''simple''
     = Inr example_curve
   \<and> (1 / 2 :: real) \<le> hd (pillar_times example_curve)
   \<and> zero_rate_at_time example_curve (1 / 2) = Inr (2 / 100)
   \<and> (3 :: real) \<ge> last (pillar_times example_curve)
   \<and> zero_rate_at_time example_curve 3 = Inr (3 / 100)"
proof -
  have lo: "(1 / 2 :: real) \<le> hd (pillar_times example_curve)"
    and hi: "(3 :: real) \<ge> last (pillar_times example_curve)"
    by (simp_all add: example_curve_def)
  have zs: "hd (pillar_zero_rates example_curve) = 2 / 100"
    "last (pillar_zero_rates example_curve) = 3 / 100"
    by (simp_all add: example_curve_def)
  from zero_rate_clamped_flat [OF example_curve_built, of "1 / 2"] lo zs
  have a: "zero_rate_at_time example_curve (1 / 2) = Inr (2 / 100)" by simp
  from zero_rate_clamped_flat [OF example_curve_built, of 3] hi zs
  have b: "zero_rate_at_time example_curve 3 = Inr (3 / 100)" by simp
  from example_curve_built lo hi a b show ?thesis by simp
qed

text \<open>
  C10. A forward-rate query whose start date precedes the valuation date raises, also when
  the end date is strictly after the start date: the discount-factor query for the start
  date rejects it.
\<close>

theorem forward_rate_before_valuation_raises:
  "start_date < valuation_date c \<Longrightarrow>
   forward_rate c start_date end_date =
     Inl (ValueError (if end_date \<le> start_date then ''end_date must be after start_date.''
                      else ''target_date must be on or after valuation_date.''))"
  by (simp add: forward_rate_def discount_factor_def)

theorem forward_rate_before_valuation_raises_witness:
  "(738885 :: int) < valuation_date example_curve
   \<and> forward_rate example_curve 738885 739252 =
       Inl (ValueError ''target_date must be on or after valuation_date.'')"
proof -
  have h: "(738885 :: int) < valuation_date example_curve"
    by (simp add: example_curve_def)
  from forward_rate_before_valuation_raises [OF h, of 739252] h show ?thesis by simp
qed

lemma example_model_built:
  "new_HullWhite1F example_curve (1 / 10) (1 / 100) ''exact'' ACT_365 = Inr example_model"
  by (simp add: new_HullWhite1F_def example_model_def)

lemma example_surface_built:
  "new_VolatilitySurface 738886 [1, 2] [1, 2] [[20 / 100, 21 / 100], [22 / 100, 23 / 100]]
     ''flat'' ''flat'' ACT_365 = Inr example_surface"
  by (simp add: new_VolatilitySurface_def example_surface_def)

subsection \<open>The volatility surface\<close>

text \<open>
  C9, as stated: a surface with flat interpolation returns one and the same value for every
  pair of in-range queries. It does not: on the two-by-two example surface, with flat
  interpolation, the in-range queries \<open>(1, 1)\<close> and \<open>(2, 1)\<close> return the grid values
  0.20 and 0.22.
\<close>

theorem flat_surface_not_constant:
  "new_VolatilitySurface 738886 [1, 2] [1, 2] [[20 / 100, 21 / 100], [22 / 100, 23 / 100]]
     ''flat'' ''flat'' ACT_365 = Inr example_surface
   \<and> volatility_at_times example_surface 1 1 = Inr (20 / 100)
   \<and> volatility_at_times example_surface 2 1 = Inr (22 / 100)
   \<and> volatility_at_times example_surface 1 1 \<noteq> volatility_at_times example_surface 2 1"
proof -
  have a: "volatility_at_times example_surface 1 1 = Inr (20 / 100)"
    and b: "volatility_at_times example_surface 2 1 = Inr (22 / 100)"
    by (simp_all add: volatility_at_times_def example_surface_def find_index_def
        get_bounds_def py_nth_def interpolate_1d_def)
  have "volatility_at_times example_surface 1 1 \<noteq> volatility_at_times example_surface 2 1"
    by (simp add: a b)
  with a b show ?thesis by (intro conjI) (rule example_surface_built)
qed

text \<open>
  C9, amended: with flat interpolation the result depends on the query only through the
  bracketing index found on each axis, so any two non-negative queries with the same
  bracketing indices return the same result (the surface is piecewise constant, one value
  per grid cell).
\<close>

theorem flat_surface_piecewise_constant:
  assumes "vs_interpolation s = ''flat''"
    and "0 \<le> e1" "0 \<le> t1" "0 \<le> e2" "0 \<le> t2"
    and "find_index (expiry_times s) e1 = find_index (expiry_times s) e2"
    and "find_index (tenor_times s) t1 = find_index (tenor_times s) t2"
  shows "volatility_at_times s e1 t1 = volatility_at_times s e2 t2"
proof (cases "find_index (expiry_times s) e2")
  case (Inl err)
  with assms show ?thesis by (simp add: volatility_at_times_def)
next
  case ei: (Inr exp_idx)
  show ?thesis
  proof (cases "find_index (tenor_times s) t2")
    case (Inl err)
    with assms ei show ?thesis by (simp add: volatility_at_times_def)
  next
    case (Inr ten_idx)
    with assms ei show ?thesis
      by (simp add: volatility_at_times_def interpolate_1d_def case_prod_beta cong: if_cong)
  qed
qed

theorem flat_surface_piecewise_constant_witness:
  "vs_interpolation example_surface = ''flat''
   \<and> find_index (expiry_times example_surface) (12 / 10)
       = find_index (expiry_times example_surface) (17 / 10)
   \<and> find_index (tenor_times example_surface) (13 / 10)
       = find_index (tenor_times example_surface) (19 / 10)
   \<and> volatility_at_times example_surface (12 / 10) (13 / 10)
       = volatility_at_times example_surface (17 / 10) (19 / 10)"
proof -
  have a: "vs_interpolation example_surface = ''flat''"
    by (simp add: example_surface_def)
  have b: "find_index (expiry_times example_surface) (12 / 10)
             = find_index (expiry_times example_surface) (17 / 10)"
    by (simp add: example_surface_def find_index_def bisect_right_def)
  have c: "find_index (tenor_times example_surface) (13 / 10)
             = find_index (tenor_times example_surface) (19 / 10)"
    by (simp add: example_surface_def find_index_def bisect_right_def)
  have "volatility_at_times example_surface (12 / 10) (13 / 10)
          = volatility_at_times example_surface (17 / 10) (19 / 10)"
    by (rule flat_surface_piecewise_constant [OF a _ _ _ _ b c]) simp_all
  with a b c show ?thesis by simp
qed

subsection \<open>Bond pricing\<close>

lemma bond_price_invalid_times:
  "T < t \<or> t < 0 \<or> T < 0 \<Longrightarrow> \<exists>e. bond_price m t T r = Inl e"
  by (auto simp: bond_price_def)

lemma bond_price_at_maturity: "0 \<le> t \<Longrightarrow> bond_price m t t r = Inr 1"
  by (simp add: bond_price_def)

text \<open>
  C4. The claim says that \<^verbatim>\<open>bond_price\<close> raises only for \<open>T < t\<close> or a negative
  time. On the example model the times \<open>t = 0.001\<close> and \<open>T = 0.002\<close> satisfy
  \<open>0 \<le> t < T\<close>, both fall on the valuation date once converted to dates
  (\<open>int(0.365) = int(0.73) = 0\<close> days), and the forward-rate query inside
  \<^verbatim>\<open>_forward_rate_integral\<close> rejects the empty date interval.
\<close>

theorem bond_price_collapsed_dates_raises:
  "new_HullWhite1F example_curve (1 / 10) (1 / 100) ''exact'' ACT_365 = Inr example_model
   \<and> bond_price example_model (1 / 1000) (2 / 1000) (2 / 100)
       = Inl (ValueError ''end_date must be after start_date.'')"
proof -
  have "bond_price example_model (1 / 1000) (2 / 1000) (2 / 100)
          = Inl (ValueError ''end_date must be after start_date.'')"
    by (simp add: bond_price_def time_to_date_def example_model_def example_curve_def
        py_int_def date_add_days_def discount_factor_def time_from_valuation_def
        year_fraction_def days_between_def forward_rate_integral_def forward_rate_def
        py_div_def Let_def)
  then show ?thesis by (intro conjI) (rule example_model_built)
qed

subsection \<open>Simulation\<close>

text \<open>
  C1. With explicitly supplied shocks the simulated path is a function of the model, the
  time grid and the shocks alone: the state of the process-level random source has no
  influence on the result (two calls started from any two states of the source return the
  same path or the same error), and the call leaves that state as it found it.
\<close>

theorem simulation_independent_of_random_source:
  "simulate_short_rate_path m tms (Some shocks) g
     = (fst (simulate_short_rate_path m tms (Some shocks) g'), g)"
  by (simp add: simulate_short_rate_path_def simulate_exact_def simulate_euler_def
      obtain_shocks_def Let_def split: sum.splits)

subsection \<open>Facts about the simulation loops\<close>

lemma simulate_exact_loop_increasing:
  "simulate_exact_loop m tms sh idxs rates = Inr res \<Longrightarrow> i \<in> set idxs \<Longrightarrow> tms ! (i - 1) < tms ! i"
proof (induction idxs arbitrary: rates)
  case Nil
  then show ?case by simp
next
  case (Cons k rest)
  then show ?case
    by (auto simp: Let_def bindE_Inr_iff split: if_splits)
qed

lemma simulate_euler_loop_increasing:
  "simulate_euler_loop m tms sh idxs rates = Inr res \<Longrightarrow> i \<in> set idxs \<Longrightarrow> tms ! (i - 1) < tms ! i"
proof (induction idxs arbitrary: rates)
  case Nil
  then show ?case by simp
next
  case (Cons k rest)
  then show ?case
    by (auto simp: Let_def bindE_Inr_iff split: if_splits)
qed

lemma consecutive_increasing_sorted:
  fixes tms :: "real list"
  assumes "\<And>i. i \<in> set [1..<length tms] \<Longrightarrow> tms ! (i - 1) < tms ! i"
  shows "sorted_wrt (<) tms"
proof -
  have "\<forall>i. Suc i < length tms \<longrightarrow> tms ! i < tms ! Suc i"
  proof (intro allI impI)
    fix i assume "Suc i < length tms"
    then have "Suc i \<in> set [1..<length tms]" by simp
    from assms [OF this] show "tms ! i < tms ! Suc i" by simp
  qed
  then show ?thesis
    by (simp add: sorted_wrt_iff_nth_Suc_transp)
qed

lemma simulate_Inr_sorted:
  assumes "simulate_short_rate_path m tms random_shocks g = (Inr res, g')"
  shows "sorted_wrt (<) tms"
proof (cases "tms = []")
  case True
  then show ?thesis by simp
next
  case False
  show ?thesis
  proof (cases "scheme m = ''exact''")
    case True
    with assms False obtain sh r0 where
      "simulate_exact_loop m tms sh [1..<length tms] ((replicate (length tms) 0)[0 := r0]) = Inr res"
      by (auto simp: simulate_short_rate_path_def simulate_exact_def Let_def
          split: if_splits sum.splits prod.splits)
    then show ?thesis
      using simulate_exact_loop_increasing consecutive_increasing_sorted by blast
  next
    case ne: False
    with assms False obtain sh r0 where
      "simulate_euler_loop m tms sh [1..<length tms] ((replicate (length tms) 0)[0 := r0]) = Inr res"
      by (auto simp: simulate_short_rate_path_def simulate_euler_def Let_def
          split: if_splits sum.splits prod.splits)
    then show ?thesis
      using simulate_euler_loop_increasing consecutive_increasing_sorted by blast
  qed
qed

lemma simulate_Inr_nonneg:
  assumes "simulate_short_rate_path m tms random_shocks g = (Inr res, g')" "t \<in> set tms"
  shows "0 \<le> t"
proof -
  from assms(2) have ne: "tms \<noteq> []" by auto
  with assms(1) have h: "0 \<le> hd tms"
    by (auto simp: simulate_short_rate_path_def Let_def split: if_splits)
  have s: "sorted_wrt (<) tms" by (rule simulate_Inr_sorted [OF assms(1)])
  from ne obtain a rest where tms: "tms = a # rest" by (cases tms) auto
  with s assms(2) have "a \<le> t" by auto
  with h tms show ?thesis by simp
qed

lemma simulate_Inr_shocks:
  assumes "simulate_short_rate_path m tms (Some shocks) g = (Inr res, g')" "tms \<noteq> []"
  shows "int (length shocks) = int (length tms) - 1"
  using assms
  by (auto simp: simulate_short_rate_path_def simulate_exact_def simulate_euler_def
      obtain_shocks_def Let_def split: if_splits sum.splits prod.splits)

lemma example_initial_short_rate: "initial_short_rate example_model 0 = Inr (2 / 100)"
  by (simp add: initial_short_rate_def time_to_date_def example_model_def example_curve_def
      py_int_def date_add_days_def zero_rate_def time_from_valuation_def year_fraction_def
      days_between_def)

lemma theta_integral_loop_sum:
  "theta_integral_loop m s dt np idxs acc = Inr r \<Longrightarrow>
     (\<forall>i \<in> set idxs. \<not> isl (theta m (s + real i * dt)))
     \<and> r = acc + (\<Sum>i\<leftarrow>idxs. (if i = 0 \<or> i = np then 1 else 2)
                                 * projr (theta m (s + real i * dt)))"
proof (induction idxs arbitrary: acc)
  case Nil
  then show ?case by simp
next
  case (Cons k rest)
  from Cons.prems obtain th where th: "theta m (s + real k * dt) = Inr th"
    and rec: "theta_integral_loop m s dt np rest
                (acc + (if k = 0 \<or> k = np then 1 else 2) * th) = Inr r"
    by (auto simp: Let_def bindE_Inr_iff)
  from Cons.IH [OF rec] th show ?case by (simp add: algebra_simps)
qed

lemma upt_11: "[0..<10 + 1] = [0, 1, 2, 3, 4, 5, 6, 7, 8, 9, 10 :: nat]"
  by code_simp

lemma lessThan_10: "{..<10 :: nat} = {0, 1, 2, 3, 4, 5, 6, 7, 8, 9}"
  by auto

lemma trapezoid_weights_10:
  fixes F :: "nat \<Rightarrow> real"
  shows "(\<Sum>i\<leftarrow>[0, 1, 2, 3, 4, 5, 6, 7, 8, 9, 10]. (if i = 0 \<or> i = 10 then 1 else 2) * F i)
           * h / 2
         = (\<Sum>k<10. h * (F k + F (Suc k)) / 2)"
proof -
  have two: "Suc (Suc 0) = 2" by simp
  show ?thesis
    by (simp add: lessThan_10 two add_divide_distrib algebra_simps)
qed

lemma theta_integral_trapezoid:
  assumes "theta_integral m s t = Inr I"
  shows "I = composite_trapezoid 10 (\<lambda>x. projr (theta m x)) s t"
    and "\<forall>k \<le> 10. \<not> isl (theta m (s + real k * ((t - s) / 10)))"
proof -
  let ?h = "(t - s) / 10"
  let ?F = "\<lambda>k::nat. projr (theta m (s + real k * ?h))"
  have "\<exists>r. theta_integral_loop m s ((t - s) / real 10) 10
               [0, 1, 2, 3, 4, 5, 6, 7, 8, 9, 10] 0 = Inr r
            \<and> I = r * ((t - s) / real 10) / 2"
    using assms unfolding theta_integral_def Let_def upt_11 bindE_Inr_iff by blast
  then obtain r where
    r: "theta_integral_loop m s ?h 10 [0, 1, 2, 3, 4, 5, 6, 7, 8, 9, 10] 0 = Inr r"
    and I: "I = r * ?h / 2"
    by auto
  note L = theta_integral_loop_sum [OF r]
  from L show "\<forall>k \<le> 10. \<not> isl (theta m (s + real k * ((t - s) / 10)))"
    by (simp add: le_Suc_eq eval_nat_numeral)
  from L have "r = 0 + (\<Sum>i\<leftarrow>[0, 1, 2, 3, 4, 5, 6, 7, 8, 9, 10].
                      (if i = 0 \<or> i = 10 then 1 else 2) * ?F i)"
    by (rule conjunct2)
  with I have "I = (\<Sum>i\<leftarrow>[0, 1, 2, 3, 4, 5, 6, 7, 8, 9, 10].
                      (if i = 0 \<or> i = 10 then 1 else 2) * ?F i) * ?h / 2"
    by (simp only: add_0)
  also have "\<dots> = (\<Sum>k<10. ?h * (?F k + ?F (Suc k)) / 2)"
    by (rule trapezoid_weights_10)
  also have "\<dots> = composite_trapezoid 10 (\<lambda>x. projr (theta m x)) s t"
    unfolding composite_trapezoid_def Let_def by (simp only: of_nat_numeral)
  finally show "I = composite_trapezoid 10 (\<lambda>x. projr (theta m x)) s t" .
qed


lemma simulate_exact_loop_steps:
  assumes "simulate_exact_loop m tms sh [k..<n] rates = Inr res" "0 < k" "n \<le> length rates"
  shows "length res = length rates
       \<and> (\<forall>j < k. res ! j = rates ! j)
       \<and> (\<forall>i. k \<le> i \<and> i < n \<longrightarrow>
            (\<exists>drift. theta_integral m (tms ! (i - 1)) (tms ! i) = Inr drift
               \<and> res ! i = res ! (i - 1) * exp (- mean_reversion m * (tms ! i - tms ! (i - 1)))
                     + drift
                     + sqrt ((volatility m)\<^sup>2 / (2 * mean_reversion m)
                             * (1 - exp (- 2 * mean_reversion m * (tms ! i - tms ! (i - 1)))))
                       * sh ! (i - 1)))"
  using assms
proof (induction "n - k" arbitrary: k rates)
  case 0
  then show ?case by auto
next
  case (Suc d)
  then have kn: "k < n" by simp
  then have upt: "[k..<n] = k # [Suc k..<n]" by (simp add: upt_conv_Cons)
  let ?dt = "tms ! k - tms ! (k - 1)"
  from Suc.prems(1) obtain drift q root where
    drift: "theta_integral m (tms ! (k - 1)) (tms ! k) = Inr drift"
    and q: "py_div ((volatility m)\<^sup>2) (2 * mean_reversion m) = Inr q"
    and root: "py_sqrt (q * (1 - exp (- 2 * mean_reversion m * ?dt))) = Inr root"
    and rec: "simulate_exact_loop m tms sh [Suc k..<n]
                (rates[k := rates ! (k - 1) * exp (- mean_reversion m * ?dt) + drift
                              + root * sh ! (k - 1)]) = Inr res"
    unfolding upt by (auto simp: Let_def bindE_Inr_iff split: if_splits)
  let ?v = "rates ! (k - 1) * exp (- mean_reversion m * ?dt) + drift + root * sh ! (k - 1)"
  from q have qv: "q = (volatility m)\<^sup>2 / (2 * mean_reversion m)"
    by (auto simp: py_div_def split: if_splits)
  from root have rv: "root = sqrt (q * (1 - exp (- 2 * mean_reversion m * ?dt)))"
    by (auto simp: py_sqrt_def split: if_splits)
  have d: "d = n - Suc k" using Suc.hyps(2) by simp
  have len: "n \<le> length (rates[k := ?v])" using Suc.prems(3) by simp
  note IH = Suc.hyps(1) [OF d rec _ len, simplified]
  from IH have l: "length res = length rates" by simp
  from IH have keep: "\<forall>j < Suc k. res ! j = (rates[k := ?v]) ! j" by simp
  from IH have later: "\<forall>i. Suc k \<le> i \<and> i < n \<longrightarrow>
            (\<exists>drift. theta_integral m (tms ! (i - 1)) (tms ! i) = Inr drift
               \<and> res ! i = res ! (i - 1) * exp (- mean_reversion m * (tms ! i - tms ! (i - 1)))
                     + drift
                     + sqrt ((volatility m)\<^sup>2 / (2 * mean_reversion m)
                             * (1 - exp (- 2 * mean_reversion m * (tms ! i - tms ! (i - 1)))))
                       * sh ! (i - 1))" by simp
  have klen: "k < length rates" using kn Suc.prems(3) by simp
  from keep klen have resk: "res ! k = ?v" by simp
  from keep Suc.prems(2) have resk1: "res ! (k - 1) = rates ! (k - 1)" by simp
  from keep have before: "\<forall>j < k. res ! j = rates ! j" by simp
  have here: "\<exists>drift. theta_integral m (tms ! (k - 1)) (tms ! k) = Inr drift
               \<and> res ! k = res ! (k - 1) * exp (- mean_reversion m * ?dt)
                     + drift
                     + sqrt ((volatility m)\<^sup>2 / (2 * mean_reversion m)
                             * (1 - exp (- 2 * mean_reversion m * ?dt)))
                       * sh ! (k - 1)"
    using drift resk resk1 qv rv by simp
  show ?case
  proof (intro conjI allI impI)
    show "length res = length rates" by (rule l)
  next
    fix j assume "j < k" then show "res ! j = rates ! j" using before by simp
  next
    fix i assume i: "k \<le> i \<and> i < n"
    show "\<exists>drift. theta_integral m (tms ! (i - 1)) (tms ! i) = Inr drift
               \<and> res ! i = res ! (i - 1) * exp (- mean_reversion m * (tms ! i - tms ! (i - 1)))
                     + drift
                     + sqrt ((volatility m)\<^sup>2 / (2 * mean_reversion m)
                             * (1 - exp (- 2 * mean_reversion m * (tms ! i - tms ! (i - 1)))))
                       * sh ! (i - 1)"
    proof (cases "i = k")
      case True
      with here show ?thesis by simp
    next
      case False
      with i have "Suc k \<le> i \<and> i < n" by simp
      with later show ?thesis by blast
    qed
  qed
qed

lemma theta_integral_loop_succeeds:
  "\<forall>i \<in> set idxs. \<not> isl (theta m (s + real i * dt)) \<Longrightarrow>
   \<not> isl (theta_integral_loop m s dt np idxs acc)"
proof (induction idxs arbitrary: acc)
  case Nil
  then show ?case by simp
next
  case (Cons k rest)
  then obtain th where "theta m (s + real k * dt) = Inr th"
    by (cases "theta m (s + real k * dt)") auto
  with Cons show ?case by (simp add: Let_def)
qed

lemma theta_integral_succeeds:
  assumes "\<forall>k \<le> 10. \<not> isl (theta m (s + real k * ((t - s) / 10)))"
  shows "\<not> isl (theta_integral m s t)"
proof -
  have "\<forall>i \<in> set [0, 1, 2, 3, 4, 5, 6, 7, 8, 9, 10].
          \<not> isl (theta m (s + real i * ((t - s) / 10)))"
  proof
    fix i :: nat assume "i \<in> set [0, 1, 2, 3, 4, 5, 6, 7, 8, 9, 10]"
    then have "i \<le> 10" by auto
    with assms show "\<not> isl (theta m (s + real i * ((t - s) / 10)))" by blast
  qed
  from theta_integral_loop_succeeds [OF this, of 10 0]
  obtain r where
    "theta_integral_loop m s ((t - s) / 10) 10 [0, 1, 2, 3, 4, 5, 6, 7, 8, 9, 10] 0 = Inr r"
    by (cases "theta_integral_loop m s ((t - s) / 10) 10 [0, 1, 2, 3, 4, 5, 6, 7, 8, 9, 10] 0")
      auto
  then show ?thesis unfolding theta_integral_def Let_def upt_11 by simp
qed

lemmas example_eval =
  theta_def time_to_date_def example_model_def example_curve_def py_int_def date_add_days_def
  forward_rate_def discount_factor_def time_from_valuation_def year_fraction_def
  days_between_def zero_rate_at_time_def df_from_rate_def py_div_def Let_def bisect_right_def
  linear_interpolate_def

lemma example_theta_values:
  "\<not> isl (theta example_model 0)"
  "\<not> isl (theta example_model (1 / 10))"
  "\<not> isl (theta example_model (2 / 10))"
  "\<not> isl (theta example_model (3 / 10))"
  "\<not> isl (theta example_model (4 / 10))"
  "\<not> isl (theta example_model (5 / 10))"
  "\<not> isl (theta example_model (6 / 10))"
  "\<not> isl (theta example_model (7 / 10))"
  "\<not> isl (theta example_model (8 / 10))"
  "\<not> isl (theta example_model (9 / 10))"
  "\<not> isl (theta example_model 1)"
  by (simp_all add: example_eval)

lemma example_theta_succeeds:
  "\<forall>k \<le> 10. \<not> isl (theta example_model (0 + real k * ((1 - 0) / 10)))"
proof (intro allI impI)
  fix k :: nat assume "k \<le> 10"
  then have "k = 0 \<or> k = 1 \<or> k = 2 \<or> k = 3 \<or> k = 4 \<or> k = 5 \<or> k = 6 \<or> k = 7 \<or> k = 8
      \<or> k = 9 \<or> k = 10"
    by presburger
  then show "\<not> isl (theta example_model (0 + real k * ((1 - 0) / 10)))"
    using example_theta_values by (elim disjE) simp_all
qed

lemma example_run_succeeds:
  "\<not> isl (fst (simulate_short_rate_path example_model [0, 1] (Some [1]) example_rng))"
proof -
  from theta_integral_succeeds [OF example_theta_succeeds]
  obtain I where I: "theta_integral example_model 0 1 = Inr I"
    by (cases "theta_integral example_model 0 1") auto
  have a: "mean_reversion example_model = 1 / 10" "volatility example_model = 1 / 100"
    "scheme example_model = ''exact''"
    by (simp_all add: example_model_def)
  have v: "\<not> (1 - exp (- (1 / 5) :: real)) * (1 / 100)\<^sup>2 < 0"
    by (simp add: not_less zero_le_mult_iff)
  show ?thesis
    by (simp add: simulate_short_rate_path_def example_initial_short_rate a simulate_exact_def
        obtain_shocks_def I py_div_def py_sqrt_def Let_def v)
qed

text \<open>On an empty grid the early return answers before any check, whatever the shocks.\<close>

lemma simulate_empty_grid:
  "simulate_short_rate_path m [] random_shocks g = (Inr [], g)"
  by (simp add: simulate_short_rate_path_def)

subsection \<open>Simulation: input checks\<close>

text \<open>
  C8, as stated: the call fails whenever supplied shocks do not have exactly
  \<open>len(times) - 1\<close> entries. It does not on an empty grid: the early return hands back
  an empty path without looking at the shocks.
\<close>

theorem simulate_empty_grid_ignores_shocks:
  "simulate_short_rate_path example_model [] (Some [1, 2]) example_rng = (Inr [], example_rng)
   \<and> int (length [1, 2 :: real]) \<noteq> int (length ([] :: real list)) - 1"
  by (simp add: simulate_short_rate_path_def)

text \<open>
  C8, amended: on every non-empty time grid the call raises whenever some time is negative
  or the grid is not strictly increasing, and raises whenever supplied shocks do not have
  exactly \<open>len(times) - 1\<close> entries; the error is the length-mismatch error when the
  first time is non-negative and the initial short rate can be read from the curve.
\<close>

theorem simulate_rejects_invalid_input:
  assumes "tms \<noteq> []"
  shows "((\<exists>t \<in> set tms. t < 0) \<or> \<not> sorted_wrt (<) tms \<longrightarrow>
            isl (fst (simulate_short_rate_path m tms random_shocks g)))
       \<and> (int (length shocks) \<noteq> int (length tms) - 1 \<longrightarrow>
            isl (fst (simulate_short_rate_path m tms (Some shocks) g)))
       \<and> (int (length shocks) \<noteq> int (length tms) - 1 \<and> 0 \<le> hd tms
            \<and> \<not> isl (initial_short_rate m (hd tms)) \<longrightarrow>
            fst (simulate_short_rate_path m tms (Some shocks) g)
              = Inl (ValueError ''random_shocks must have length n - 1.''))"
proof (intro conjI impI)
  assume bad: "(\<exists>t \<in> set tms. t < 0) \<or> \<not> sorted_wrt (<) tms"
  show "isl (fst (simulate_short_rate_path m tms random_shocks g))"
  proof (rule ccontr)
    assume "\<not> isl (fst (simulate_short_rate_path m tms random_shocks g))"
    then obtain res g' where r: "simulate_short_rate_path m tms random_shocks g = (Inr res, g')"
      by (cases "simulate_short_rate_path m tms random_shocks g"; cases "fst (simulate_short_rate_path m tms random_shocks g)") auto
    from simulate_Inr_sorted [OF r] simulate_Inr_nonneg [OF r] bad show False
      by (auto simp: not_less [symmetric])
  qed
next
  assume bad: "int (length shocks) \<noteq> int (length tms) - 1"
  show "isl (fst (simulate_short_rate_path m tms (Some shocks) g))"
  proof (rule ccontr)
    assume "\<not> isl (fst (simulate_short_rate_path m tms (Some shocks) g))"
    then obtain res g' where r: "simulate_short_rate_path m tms (Some shocks) g = (Inr res, g')"
      by (cases "simulate_short_rate_path m tms (Some shocks) g"; cases "fst (simulate_short_rate_path m tms (Some shocks) g)") auto
    from simulate_Inr_shocks [OF r assms] bad show False by simp
  qed
next
  assume "int (length shocks) \<noteq> int (length tms) - 1 \<and> 0 \<le> hd tms
            \<and> \<not> isl (initial_short_rate m (hd tms))"
  then show "fst (simulate_short_rate_path m tms (Some shocks) g)
              = Inl (ValueError ''random_shocks must have length n - 1.'')"
    using assms
    by (auto simp: simulate_short_rate_path_def simulate_exact_def simulate_euler_def
      obtain_shocks_def Let_def split: sum.splits)
qed

theorem simulate_rejects_invalid_input_witness:
  "[0, 2, 1 :: real] \<noteq> []
   \<and> \<not> sorted_wrt (<) [0, 2, 1 :: real]
   \<and> isl (fst (simulate_short_rate_path example_model [0, 2, 1] (Some [0, 0])
                 example_rng))
   \<and> int (length [1 :: real]) \<noteq> int (length [0, 2, 1 :: real]) - 1
   \<and> 0 \<le> hd [0, 2, 1 :: real]
   \<and> \<not> isl (initial_short_rate example_model (hd [0, 2, 1]))
   \<and> fst (simulate_short_rate_path example_model [0, 2, 1] (Some [1]) example_rng)
       = Inl (ValueError ''random_shocks must have length n - 1.'')"
proof -
  have ne: "[0, 2, 1 :: real] \<noteq> []" by simp
  have i0: "\<not> isl (initial_short_rate example_model (hd [0, 2, 1]))"
    by (simp add: example_initial_short_rate)
  have ns: "\<not> sorted_wrt (<) [0, 2, 1 :: real]" by simp
  have lm: "int (length [1 :: real]) \<noteq> int (length [0, 2, 1 :: real]) - 1" by simp
  have h0: "0 \<le> hd [0, 2, 1 :: real]" by simp
  note T = simulate_rejects_invalid_input
             [OF ne, of example_model "Some [0, 0]" example_rng "[1]"]
  from T ns have c1: "isl (fst (simulate_short_rate_path example_model [0, 2, 1]
                                  (Some [0, 0]) example_rng))"
    by blast
  from T lm h0 i0 have c3:
    "fst (simulate_short_rate_path example_model [0, 2, 1] (Some [1]) example_rng)
       = Inl (ValueError ''random_shocks must have length n - 1.'')"
    by blast
  from ne ns c1 lm h0 i0 c3 show ?thesis by blast
qed

subsection \<open>Simulation: the exact scheme\<close>

text \<open>
  C3. Under the exact scheme, whenever the simulation with supplied shocks returns a path,
  the grid is strictly increasing at every step \<open>i\<close> and the rate at step \<open>i\<close> is the
  previous rate times \<open>e\<^sup>-\<^sup>a\<^sup>\<Delta>\<^sup>t\<close>, plus the integral of \<open>\<theta>\<close> over the step computed by
  the composite trapezoidal rule with 10 sub-intervals (all 11 evaluations of \<open>\<theta>\<close>
  succeed), plus the square root of \<open>(\<sigma>\<^sup>2 / 2a)(1 - e\<^sup>-\<^sup>2\<^sup>a\<^sup>\<Delta>\<^sup>t)\<close> times the shock supplied
  for the step.
\<close>

theorem exact_scheme_step:
  assumes "scheme m = ''exact''"
    and "simulate_short_rate_path m tms (Some shocks) g = (Inr rates, g')"
    and "0 < i" "i < length tms"
  shows "length rates = length tms
       \<and> tms ! (i - 1) < tms ! i
       \<and> theta_integral m (tms ! (i - 1)) (tms ! i)
           = Inr (composite_trapezoid 10 (\<lambda>x. projr (theta m x)) (tms ! (i - 1)) (tms ! i))
       \<and> (\<forall>k \<le> 10. \<not> isl (theta m (tms ! (i - 1) + real k * ((tms ! i - tms ! (i - 1)) / 10))))
       \<and> rates ! i =
           rates ! (i - 1) * exp (- mean_reversion m * (tms ! i - tms ! (i - 1)))
           + composite_trapezoid 10 (\<lambda>x. projr (theta m x)) (tms ! (i - 1)) (tms ! i)
           + sqrt ((volatility m)\<^sup>2 / (2 * mean_reversion m)
                   * (1 - exp (- 2 * mean_reversion m * (tms ! i - tms ! (i - 1)))))
             * shocks ! (i - 1)"
proof -
  from assms(4) have ne: "tms \<noteq> []" by auto
  with assms(1,2) obtain r0 where
    loop: "simulate_exact_loop m tms shocks [1..<length tms]
             ((replicate (length tms) 0)[0 := r0]) = Inr rates"
    by (auto simp: simulate_short_rate_path_def simulate_exact_def obtain_shocks_def Let_def
        split: if_splits sum.splits)
  have inc: "tms ! (i - 1) < tms ! i"
    using simulate_exact_loop_increasing [OF loop, of i] assms(3,4) by simp
  from simulate_exact_loop_steps [OF loop] have
    len: "length rates = length tms"
    and steps: "\<forall>i. 1 \<le> i \<and> i < length tms \<longrightarrow>
            (\<exists>drift. theta_integral m (tms ! (i - 1)) (tms ! i) = Inr drift
               \<and> rates ! i = rates ! (i - 1) * exp (- mean_reversion m * (tms ! i - tms ! (i - 1)))
                     + drift
                     + sqrt ((volatility m)\<^sup>2 / (2 * mean_reversion m)
                             * (1 - exp (- 2 * mean_reversion m * (tms ! i - tms ! (i - 1)))))
                       * shocks ! (i - 1))"
    by simp_all
  from steps assms(3,4) obtain drift where
    drift: "theta_integral m (tms ! (i - 1)) (tms ! i) = Inr drift"
    and step: "rates ! i = rates ! (i - 1) * exp (- mean_reversion m * (tms ! i - tms ! (i - 1)))
                     + drift
                     + sqrt ((volatility m)\<^sup>2 / (2 * mean_reversion m)
                             * (1 - exp (- 2 * mean_reversion m * (tms ! i - tms ! (i - 1)))))
                       * shocks ! (i - 1)"
    by (metis One_nat_def Suc_leI)
  note T = theta_integral_trapezoid [OF drift]
  from T(1) drift step len inc T(2) show ?thesis by simp
qed

theorem exact_scheme_step_witness:
  "scheme example_model = ''exact''
   \<and> \<not> isl (fst (simulate_short_rate_path example_model [0, 1] (Some [1]) example_rng))
   \<and> projr (fst (simulate_short_rate_path example_model [0, 1] (Some [1]) example_rng)) ! 1
       = projr (fst (simulate_short_rate_path example_model [0, 1] (Some [1]) example_rng)) ! 0
           * exp (- (1 / 10))
         + composite_trapezoid 10 (\<lambda>x. projr (theta example_model x)) 0 1
         + sqrt ((1 / 100)\<^sup>2 / (2 * (1 / 10)) * (1 - exp (- 2 * (1 / 10))))"
proof -
  let ?X = "simulate_short_rate_path example_model [0, 1] (Some [1]) example_rng"
  have sch: "scheme example_model = ''exact''" by (simp add: example_model_def)
  have run: "?X = (Inr (projr (fst ?X)), snd ?X)"
    using example_run_succeeds by (cases ?X; cases "fst ?X") auto
  have a: "mean_reversion example_model = 1 / 10" "volatility example_model = 1 / 100"
    by (simp_all add: example_model_def)
  from exact_scheme_step [OF sch run, of 1]
  have "projr (fst ?X) ! 1 = projr (fst ?X) ! 0 * exp (- (1 / 10))
         + composite_trapezoid 10 (\<lambda>x. projr (theta example_model x)) 0 1
         + sqrt ((1 / 100)\<^sup>2 / (2 * (1 / 10)) * (1 - exp (- 2 * (1 / 10))))"
    by (simp add: a)
  with sch example_run_succeeds show ?thesis by simp
qed

subsection \<open>Facts about the discount-factor builder\<close>

lemma year_fraction_Inr_le: "year_fraction s e dc = Inr t \<Longrightarrow> s \<le> e"
  by (auto simp: year_fraction_def days_between_def split: if_splits)

lemma py_pow_positive_base:
  assumes "0 < x" "y \<noteq> 0"
  shows "py_pow x y = (if x powr y > float_max then Inl OverflowError else Inr (x powr y))"
proof -
  have "\<bar>x powr y\<bar> = x powr y" by simp
  with assms show ?thesis by (simp add: py_pow_def float_range_def)
qed

lemma mapE_all_Inr: "\<forall>x \<in> set xs. f x = Inr (g x) \<Longrightarrow> mapE f xs = Inr (map g xs)"
  by (induction xs) simp_all

text \<open>
  The conversion of one discount factor to a zero rate, as the builder writes it inline:
  once the discount factor and the year fraction are positive it is the exact inverse,
  unless the power of annual compounding leaves the float range.
\<close>

lemma inline_zero_rate:
  assumes "0 < df" "0 < t" "cmpd \<in> {''cont'', ''annual'', ''simple''}"
  shows "(if cmpd = ''cont'' then bindE (py_log df) (\<lambda>l. py_div (- l) t)
          else if cmpd = ''annual'' then
            bindE (py_div (- 1) t) (\<lambda>e. bindE (py_pow df e) (\<lambda>p. Inr (p - 1)))
          else if cmpd = ''simple'' then bindE (py_div 1 df) (\<lambda>q. py_div (q - 1) t)
          else Inl (ValueError ''Unsupported compounding method''))
         = (if cmpd = ''annual'' \<and> df powr (- 1 / t) > float_max then Inl OverflowError
            else Inr (zero_of_df cmpd df t))"
proof -
  have e: "- (1 / t) \<noteq> 0" using assms(2) by simp
  consider "cmpd = ''cont''" | "cmpd = ''annual''" | "cmpd = ''simple''"
    using assms(3) by auto
  then show ?thesis
  proof cases
    case 1
    with assms show ?thesis by (simp add: py_log_def py_div_def zero_of_df_def)
  next
    case 2
    with assms show ?thesis
      by (simp add: py_div_def py_pow_positive_base [OF assms(1) e] zero_of_df_def)
  next
    case 3
    with assms show ?thesis by (simp add: py_div_def zero_of_df_def)
  qed
qed

lemma zeros_from_discount_factors_char:
  assumes "\<forall>p \<in> set ps. year_fraction vd (fst p) dc = Inr (f (fst p)) \<and> 0 < f (fst p)"
    and "cmpd \<in> {''cont'', ''annual'', ''simple''}"
  shows "zeros_from_discount_factors vd dc cmpd ps = Inr zs \<longleftrightarrow>
           (\<forall>p \<in> set ps. 0 < snd p \<and> snd p < 1 + 1 / 10 ^ 12
                \<and> (cmpd = ''annual'' \<longrightarrow> snd p powr (- 1 / f (fst p)) \<le> float_max))
           \<and> zs = map (\<lambda>p. zero_of_df cmpd (snd p) (f (fst p))) ps"
  using assms(1)
proof (induction ps arbitrary: zs)
  case Nil
  then show ?case by auto
next
  case (Cons p ps)
  obtain d df where p: "p = (d, df)" by (cases p)
  from Cons.prems p have t: "year_fraction vd d dc = Inr (f d)" "0 < f d"
    and rest: "\<forall>p \<in> set ps. year_fraction vd (fst p) dc = Inr (f (fst p)) \<and> 0 < f (fst p)"
    by simp_all
  note IH = Cons.IH [OF rest]
  show ?case
  proof (cases "0 < df \<and> df < 1 + 1 / 10 ^ 12")
    case False
    then show ?thesis using p t by (auto simp: not_less)
  next
    case True
    then have dpos: "0 < df" by simp
    note Z = inline_zero_rate [OF dpos t(2) assms(2)]
    show ?thesis
    proof (cases "cmpd = ''annual'' \<and> df powr (- 1 / f d) > float_max")
      case over: True
      with True p t Z show ?thesis by (auto simp: not_le [symmetric])
    next
      case ok: False
      with Z have Z': "(if cmpd = ''cont'' then bindE (py_log df) (\<lambda>l. py_div (- l) (f d))
          else if cmpd = ''annual'' then
            bindE (py_div (- 1) (f d)) (\<lambda>e. bindE (py_pow df e) (\<lambda>p. Inr (p - 1)))
          else if cmpd = ''simple'' then bindE (py_div 1 df) (\<lambda>q. py_div (q - 1) (f d))
          else Inl (ValueError ''Unsupported compounding method''))
         = Inr (zero_of_df cmpd df (f d))"
        by simp
      have "zeros_from_discount_factors vd dc cmpd (p # ps) =
              bindE (zeros_from_discount_factors vd dc cmpd ps)
                (\<lambda>zs. Inr (zero_of_df cmpd df (f d) # zs))"
        using True t p by (simp add: Z' not_le [symmetric])
      then show ?thesis using IH True ok p
        by (auto simp: bindE_Inr_iff not_less)
    qed
  qed
qed



text \<open>
  Construction sorts the pillars by date, so the input order does not matter: distinct
  dates whose year fractions are defined and strictly increasing in the date are accepted.
\<close>

lemma new_YieldCurve_succeeds:
  assumes "length pd = length zs" "pd \<noteq> []" "distinct pd"
    and "\<forall>d \<in> set pd. year_fraction vd d dc = Inr (f d)"
    and "\<forall>d \<in> set pd. \<forall>d' \<in> set pd. d < d' \<longrightarrow> f d < f d'"
  shows "\<not> isl (new_YieldCurve vd pd zs dc interp cmpd)"
proof -
  let ?sp = "sort_key fst (zip pd zs)"
  let ?ds = "map fst ?sp"
  have dz: "distinct (map fst (zip pd zs))" using assms(1,3) by simp
  then have "distinct (zip pd zs)" "inj_on fst (set (zip pd zs))"
    by (simp_all add: distinct_map)
  then have dd: "distinct ?ds" by (simp add: distinct_map)
  have "sorted ?ds" by (rule sorted_sort_key)
  with dd have sd: "sorted_wrt (<) ?ds" by (simp add: strict_sorted_iff)
  have "set ?ds = set (map fst (zip pd zs))" by simp
  then have sds: "set ?ds = set pd" using assms(1) by simp
  have ge: "\<not> list_ex (\<lambda>d. d < vd) pd"
  proof
    assume "list_ex (\<lambda>d. d < vd) pd"
    then obtain d where d: "d \<in> set pd" "d < vd" by (auto simp: list_ex_iff)
    with assms(4) have "vd \<le> d" using year_fraction_Inr_le by blast
    with d(2) show False by simp
  qed
  have v1: "validate_strictly_increasing ?ds = Inr ()"
    using sd by (simp add: validate_strictly_increasing_iff)
  have m: "mapE (\<lambda>d. year_fraction vd d dc) ?ds = Inr (map f ?ds)"
    by (rule mapE_all_Inr) (use assms(4) sds in blast)
  have "sorted_wrt (\<lambda>x y. f x < f y) ?ds"
    by (rule sorted_wrt_mono_rel [OF _ sd]) (use assms(5) sds in blast)
  then have "sorted_wrt (<) (map f ?ds)" by (simp add: sorted_wrt_map)
  then have v2: "validate_strictly_increasing (map f ?ds) = Inr ()"
    by (simp add: validate_strictly_increasing_iff)
  have ne: "zs \<noteq> []" using assms(1,2) by auto
  show ?thesis
    using assms(1,2) ge ne
    by (simp add: new_YieldCurve_def Let_def v1 v2 [simplified] m [simplified])
qed

lemmas date_eval = date_year_def date_month_def date_day_def days_before_year_def
  days_before_month_def days_in_month_def Let_def

subsection \<open>Building a curve from discount factors\<close>

text \<open>
  C5, as stated: construction raises for every input that contains a discount factor
  above 1. It does not: the check rejects only \<open>df \<ge> 1 + 10\<^sup>-\<^sup>1\<^sup>2\<close>, so a single pillar with
  the discount factor \<open>1 + 5 \<sqdot> 10\<^sup>-\<^sup>1\<^sup>3\<close> is accepted.
\<close>

theorem discount_factor_above_one_accepted:
  "\<not> isl (build_yield_curve_from_discount_factors 738886 [739252] [1 + 5 / 10 ^ 13]
            ACT_365 ''log_linear_df'' ''cont'')
   \<and> \<not> (1 + 5 / 10 ^ 13 \<le> (1 :: real))"
  by (simp add: build_yield_curve_from_discount_factors_def year_fraction_def
      days_between_def py_log_def py_div_def new_YieldCurve_def)

text \<open>
  The other way round, discount factors inside \<open>(0, 1]\<close> do not always build a curve:
  with annual compounding, the discount factor 0.1 on a pillar one day after the valuation
  date needs \<open>0.1 ** -365\<close>, which leaves the float range.
\<close>

lemma annual_compounding_overflows:
  "build_yield_curve_from_discount_factors 738886 [738887] [1 / 10] ACT_365
     ''log_linear_df'' ''annual'' = Inl OverflowError"
proof -
  have "(1 / 10 :: real) powr (- 365) = 10 ^ 365"
    by (simp add: powr_minus_divide power_one_over)
  moreover have "(10 :: real) ^ 365 > float_max" by (simp add: float_max_def)
  ultimately have "(1 / 10 :: real) powr (- 365) > float_max" by simp
  then show ?thesis
    by (simp add: build_yield_curve_from_discount_factors_def year_fraction_def
        days_between_def py_div_def py_pow_positive_base)
qed

text \<open>
  C5, amended: for equal-length, non-empty inputs with a supported compounding mode, whose
  pillar dates are distinct (in any order) and have positive year fractions that increase
  strictly with the date, construction raises if and only if some discount factor is
  \<open>\<le> 0\<close> or \<open>\<ge> 1 + 10\<^sup>-\<^sup>1\<^sup>2\<close>, or the compounding is annual and \<open>df ** (-1 / t)\<close> leaves the
  float range at some pillar.
\<close>

theorem build_from_discount_factors_raises_iff:
  assumes "length pd = length dfs" "pd \<noteq> []" "distinct pd"
    and "\<forall>d \<in> set pd. year_fraction vd d dc = Inr (f d) \<and> 0 < f d"
    and "\<forall>d \<in> set pd. \<forall>d' \<in> set pd. d < d' \<longrightarrow> f d < f d'"
    and "cmpd \<in> {''cont'', ''annual'', ''simple''}"
  shows "isl (build_yield_curve_from_discount_factors vd pd dfs dc interp cmpd)
         \<longleftrightarrow> (\<exists>df \<in> set dfs. df \<le> 0 \<or> 1 + 1 / 10 ^ 12 \<le> df)
             \<or> (cmpd = ''annual''
                 \<and> (\<exists>p \<in> set (zip pd dfs). snd p powr (- 1 / f (fst p)) > float_max))"
proof -
  let ?ps = "zip pd dfs"
  let ?good = "\<forall>p \<in> set ?ps. 0 < snd p \<and> snd p < 1 + 1 / 10 ^ 12
                 \<and> (cmpd = ''annual'' \<longrightarrow> snd p powr (- 1 / f (fst p)) \<le> float_max)"
  have yf: "\<forall>p \<in> set ?ps. year_fraction vd (fst p) dc = Inr (f (fst p)) \<and> 0 < f (fst p)"
  proof
    fix p assume "p \<in> set ?ps"
    then have "fst p \<in> set pd" by (metis prod.collapse set_zip_leftD)
    with assms(4) show "year_fraction vd (fst p) dc = Inr (f (fst p)) \<and> 0 < f (fst p)"
      by blast
  qed
  note C = zeros_from_discount_factors_char [OF yf assms(6)]
  have snds: "snd ` set ?ps = set dfs"
    using assms(1) by (metis map_snd_zip set_map)
  have build: "isl (build_yield_curve_from_discount_factors vd pd dfs dc interp cmpd)
                 \<longleftrightarrow> \<not> ?good"
  proof (cases ?good)
    case True
    with C have zs: "zeros_from_discount_factors vd dc cmpd ?ps
                       = Inr (map (\<lambda>p. zero_of_df cmpd (snd p) (f (fst p))) ?ps)"
      by blast
    have len: "length pd = length (map (\<lambda>p. zero_of_df cmpd (snd p) (f (fst p))) ?ps)"
      using assms(1) by simp
    have yf': "\<forall>d \<in> set pd. year_fraction vd d dc = Inr (f d)" using assms(4) by blast
    from new_YieldCurve_succeeds [OF len assms(2,3) yf' assms(5)] zs assms(1) True
    show ?thesis by (simp add: build_yield_curve_from_discount_factors_def)
  next
    case False
    with C have "\<And>zs. zeros_from_discount_factors vd dc cmpd ?ps \<noteq> Inr zs" by blast
    then obtain e where "zeros_from_discount_factors vd dc cmpd ?ps = Inl e"
      by (cases "zeros_from_discount_factors vd dc cmpd ?ps") auto
    with assms(1) False show ?thesis
      by (simp add: build_yield_curve_from_discount_factors_def)
  qed
  have "\<not> ?good \<longleftrightarrow> (\<exists>df \<in> set dfs. df \<le> 0 \<or> 1 + 1 / 10 ^ 12 \<le> df)
             \<or> (cmpd = ''annual''
                 \<and> (\<exists>p \<in> set ?ps. snd p powr (- 1 / f (fst p)) > float_max))"
    unfolding snds [symmetric] by (auto simp: not_less not_le)
  with build show ?thesis by simp
qed

theorem build_from_discount_factors_raises_iff_witness:
  "length [739617, 739252 :: int] = length [95 / 100, 98 / 100 :: real]
   \<and> distinct [739617, 739252 :: int]
   \<and> \<not> sorted_wrt (<) [739617, 739252 :: int]
   \<and> \<not> isl (build_yield_curve_from_discount_factors 738886 [739617, 739252]
              [95 / 100, 98 / 100] ACT_365 ''log_linear_df'' ''cont'')"
proof -
  have a: "length [739617, 739252 :: int] = length [95 / 100, 98 / 100 :: real]" by simp
  have b: "[739617, 739252 :: int] \<noteq> []" by simp
  have c: "distinct [739617, 739252 :: int]" by simp
  have d: "\<forall>d \<in> set [739617, 739252 :: int].
             year_fraction 738886 d ACT_365 = Inr (real_of_int (d - 738886) / 365)
             \<and> 0 < real_of_int (d - 738886) / 365"
    by (simp add: year_fraction_def days_between_def)
  have e: "\<forall>d \<in> set [739617, 739252 :: int]. \<forall>d' \<in> set [739617, 739252 :: int].
             d < d' \<longrightarrow> real_of_int (d - 738886) / 365 < real_of_int (d' - 738886) / 365"
    by simp
  have g: "''cont'' \<in> {''cont'', ''annual'', ''simple''}" by simp
  have h: "\<not> (\<exists>df \<in> set [95 / 100, 98 / 100 :: real]. df \<le> 0 \<or> 1 + 1 / 10 ^ 12 \<le> df)"
    by simp
  have n: "\<not> sorted_wrt (<) [739617, 739252 :: int]" by simp
  from build_from_discount_factors_raises_iff
         [of "[739617, 739252]" "[95 / 100, 98 / 100]" 738886 ACT_365
             "\<lambda>d. real_of_int (d - 738886) / 365" "''cont''" "''log_linear_df''",
          OF a b c d e g] h
  have "\<not> isl (build_yield_curve_from_discount_factors 738886 [739617, 739252]
              [95 / 100, 98 / 100] ACT_365 ''log_linear_df'' ''cont'')"
    by simp
  with a c n show ?thesis by blast
qed

subsection \<open>Round trip through the discount-factor builder\<close>









subsection \<open>The par-swap bootstrap\<close>

lemma fixed_leg_loop_result:
  "fixed_leg_loop tc vd sched mat rate dc idxs (pv, tm) = Inr (pv', tm') \<Longrightarrow>
     pv' = pv + (\<Sum>i\<leftarrow>filter (\<lambda>i. sched ! i \<noteq> mat) idxs.
                   projr (discount_factor tc (sched ! i)) * rate
                   * projr (year_fraction (if i = 0 then vd else sched ! (i - 1)) (sched ! i) dc))
     \<and> tm' = (if filter (\<lambda>i. sched ! i = mat) idxs = [] then tm
              else projr (year_fraction
                      (if last (filter (\<lambda>i. sched ! i = mat) idxs) = 0 then vd
                       else sched ! (last (filter (\<lambda>i. sched ! i = mat) idxs) - 1))
                      (sched ! last (filter (\<lambda>i. sched ! i = mat) idxs)) dc))"
proof (induction idxs arbitrary: pv tm)
  case Nil
  then show ?case by simp
next
  case (Cons i rest)
  from Cons.prems obtain tau where
    tau: "year_fraction (if i = 0 then vd else sched ! (i - 1)) (sched ! i) dc = Inr tau"
    by (auto simp: Let_def bindE_Inr_iff)
  show ?case
  proof (cases "sched ! i = mat")
    case True
    with Cons.prems tau have
      "fixed_leg_loop tc vd sched mat rate dc rest (pv, tau) = Inr (pv', tm')"
      by (simp add: Let_def)
    from Cons.IH [OF this] True tau show ?thesis by (auto split: if_splits)
  next
    case False
    with Cons.prems tau obtain d where d: "discount_factor tc (sched ! i) = Inr d"
      and rec: "fixed_leg_loop tc vd sched mat rate dc rest (pv + d * rate * tau, tm)
                  = Inr (pv', tm')"
      by (auto simp: Let_def bindE_Inr_iff)
    from Cons.IH [OF rec] False tau d show ?thesis by (auto split: if_splits)
  qed
qed

text \<open>
  What the bootstrap step does on a schedule that ends at the swap maturity and reaches it
  only there: the known present value is the sum over the periods before maturity, the
  solved discount factor is the closed form when the last period has a positive year
  fraction and 1 otherwise, and a returned discount factor lies in \<open>(0, 1]\<close>.
\<close>

lemma solve_swap_closed_form:
  assumes "solve_swap tc vd sched mat rate dc = Inr df"
    and "sched \<noteq> []" "last sched = mat" "mat \<notin> set (butlast sched)"
  shows "df = (if 0 < projr (year_fraction
                      (if length sched - 1 = 0 then vd else sched ! (length sched - 1 - 1))
                      mat dc)
               then (1 - (\<Sum>i\<leftarrow>[0..<length sched - 1].
                            projr (discount_factor tc (sched ! i)) * rate
                            * projr (year_fraction (if i = 0 then vd else sched ! (i - 1))
                                       (sched ! i) dc)))
                    / (1 + rate * projr (year_fraction
                           (if length sched - 1 = 0 then vd
                            else sched ! (length sched - 1 - 1)) mat dc))
               else 1)
         \<and> 0 < df \<and> df \<le> 1"
proof -
  let ?n = "length sched"
  have n: "0 < ?n" using assms(2) by simp
  then have upt: "[0..<?n] = [0..<?n - 1] @ [?n - 1]"
    by (metis Suc_pred' upt_Suc_append zero_le)
  have lastm: "sched ! (?n - 1) = mat" using assms(2,3) by (simp add: last_conv_nth)
  have before: "sched ! i \<noteq> mat" if "i < ?n - 1" for i
  proof -
    from that have "butlast sched ! i = sched ! i" by (simp add: nth_butlast)
    moreover from that have "butlast sched ! i \<in> set (butlast sched)" by simp
    ultimately show ?thesis using assms(4) by auto
  qed
  have f1: "filter (\<lambda>i. sched ! i \<noteq> mat) [0..<?n] = [0..<?n - 1]"
    unfolding upt using before lastm by (simp add: filter_id_conv)
  have f2: "filter (\<lambda>i. sched ! i = mat) [0..<?n] = [?n - 1]"
    unfolding upt using before lastm by (simp add: filter_empty_conv)
  from assms(1) obtain pv tm where
    loop: "fixed_leg_loop tc vd sched mat rate dc [0..<?n] (0, 0) = Inr (pv, tm)"
    and rest: "bindE (if 0 < tm then py_div (1 - pv) (1 + rate * tm) else Inr 1)
                 (\<lambda>df_maturity. if df_maturity \<le> 0 \<or> df_maturity > 1
                    then Inl (ValueError ''Bootstrapping failed: invalid discount factor'')
                    else Inr df_maturity) = Inr df"
    unfolding solve_swap_def using assms(3) by (auto simp: bindE_Inr_iff)
  from fixed_leg_loop_result [OF loop] have
    pv: "pv = (\<Sum>i\<leftarrow>[0..<?n - 1]. projr (discount_factor tc (sched ! i)) * rate
                 * projr (year_fraction (if i = 0 then vd else sched ! (i - 1)) (sched ! i) dc))"
    and tm: "tm = projr (year_fraction (if ?n - 1 = 0 then vd else sched ! (?n - 1 - 1))
                          mat dc)"
    unfolding f1 f2 using lastm by simp_all
  from rest have "df = (if 0 < tm then (1 - pv) / (1 + rate * tm) else 1) \<and> 0 < df \<and> df \<le> 1"
    by (auto simp: bindE_Inr_iff py_div_def split: if_splits)
  then show ?thesis unfolding pv tm .
qed

lemma example_date_fields:
  "date_year 739097 = 2024 \<and> date_month 739097 = 7 \<and> date_day 739097 = 30"
  "date_year 739189 = 2024 \<and> date_month 739189 = 10 \<and> date_day 739189 = 30"
  "date_year 739281 = 2025 \<and> date_month 739281 = 1 \<and> date_day 739281 = 30"
  "date_year 739282 = 2025 \<and> date_month 739282 = 1 \<and> date_day 739282 = 31"
  by (simp_all add: date_eval)

lemma example_add_months:
  "add_months 739097 6 = Inr 739281"
  "add_months 739281 6 = Inr 739462"
  by (simp_all add: add_months_def example_date_fields mk_date_def ymd_to_ord_def
      days_in_month_def days_before_year_def days_before_month_def)

lemma example_schedule_first:
  "generate_schedule 739097 739189 6 ''M'' = Some (Inr [739097, 739189])"
  apply (simp add: generate_schedule_def)
  apply (subst schedule_loop.simps)
  apply (simp add: advance_date_def example_add_months)
  apply (subst schedule_loop.simps)
  apply simp
  done

lemma example_schedule_second:
  "generate_schedule 739097 739282 6 ''M'' = Some (Inr [739097, 739281, 739282])"
  apply (simp add: generate_schedule_def)
  apply (subst schedule_loop.simps)
  apply (simp add: advance_date_def example_add_months)
  apply (subst schedule_loop.simps)
  apply (simp add: advance_date_def example_add_months)
  apply (subst schedule_loop.simps)
  apply simp
  done

lemma example_year_fractions:
  "year_fraction 739097 739189 THIRTY_360 = Inr (1 / 4)"
  "year_fraction 739097 739281 THIRTY_360 = Inr (1 / 2)"
  "year_fraction 739281 739282 THIRTY_360 = Inr 0"
  "year_fraction 739097 739282 THIRTY_360 = Inr (1 / 2)"
  by (simp_all add: year_fraction_def days_between_def example_date_fields)

lemma example_temp_curve_built:
  "build_yield_curve_from_discount_factors 739097 [739189] [200 / 201] THIRTY_360
     ''linear_zero'' ''simple'' = Inr example_temp_curve"
  by (simp add: build_yield_curve_from_discount_factors_def example_year_fractions py_div_def
      new_YieldCurve_def example_temp_curve_def)

lemma example_known_payment:
  "discount_factor example_temp_curve 739281 = Inr (100 / 101)"
  by (simp add: discount_factor_def time_from_valuation_def example_temp_curve_def
      example_year_fractions zero_rate_at_time_def df_from_rate_def py_div_def)

lemma example_fixed_leg:
  "fixed_leg_loop example_temp_curve 739097 [739281, 739282] 739282 (2 / 100) THIRTY_360
     [0..<length [739281, 739282 :: int]] (0, 0) = Inr (1 / 101, 0)"
proof -
  have u: "[0..<length [739281, 739282 :: int]] = [0, 1]" by (simp add: upt_rec)
  show ?thesis unfolding u by (simp add: example_year_fractions example_known_payment)
qed

lemma example_solve_swap:
  "solve_swap example_temp_curve 739097 [739281, 739282] 739282 (2 / 100) THIRTY_360 = Inr 1"
  unfolding solve_swap_def example_fixed_leg by simp

lemma example_final_curve_built:
  "build_yield_curve_from_discount_factors 739097 [739189, 739282] [200 / 201, 1]
     THIRTY_360 ''linear_zero'' ''simple'' = Inr example_swap_curve"
  by (simp add: build_yield_curve_from_discount_factors_def example_year_fractions py_div_def
      new_YieldCurve_def example_swap_curve_def)

text \<open>
  C2. The claim: for every swap after the first, the discount factor solved for the
  maturity is \<open>(1 - PV_known) / (1 + rate \<sqdot> tau_last)\<close>. The code departs from it when the
  last period has the year fraction 0, which 30/360 gives to a period from the 30th to the
  31st of a month. For the second swap of the example the payment periods are 2024-07-30
  to 2025-01-30 and 2025-01-30 to 2025-01-31; the known present value is
  \<open>(100/101) \<sqdot> 0.02 \<sqdot> 0.5 = 1/101\<close>, so the closed form gives
  \<open>(1 - 1/101) / (1 + 0.02 \<sqdot> 0) = 100/101\<close>. The code takes its branch for a non-positive
  last year fraction, sets the discount factor at maturity to 1, accepts it, and returns a
  curve whose zero rate at the swap maturity is 0.
\<close>

theorem swap_bootstrap_zero_length_last_period:
  "fixed_leg_loop example_temp_curve 739097 [739281, 739282] 739282 (2 / 100) THIRTY_360
     [0..<length [739281, 739282 :: int]] (0, 0) = Inr (1 / 101, 0)
   \<and> solve_swap example_temp_curve 739097 [739281, 739282] 739282 (2 / 100) THIRTY_360 = Inr 1
   \<and> (1 - 1 / 101) / (1 + 2 / 100 * 0) \<noteq> (1 :: real)
   \<and> build_yield_curve_from_swaps 739097 [739189, 739282] [2 / 100, 2 / 100] 6 ''M''
        THIRTY_360 ''linear_zero'' ''simple'' = Some (Inr example_swap_curve)"
proof -
  have "build_yield_curve_from_swaps 739097 [739189, 739282] [2 / 100, 2 / 100] 6 ''M''
          THIRTY_360 ''linear_zero'' ''simple'' = Some (Inr example_swap_curve)"
    by (simp add: build_yield_curve_from_swaps_def example_schedule_first
        example_schedule_second example_year_fractions py_div_def example_temp_curve_built
        example_solve_swap [simplified] example_final_curve_built)
  moreover have "(1 - 1 / 101) / (1 + 2 / 100 * 0) \<noteq> (1 :: real)" by simp
  ultimately show ?thesis using example_fixed_leg example_solve_swap by blast
qed

end
